theory Spec2Isabelle
  imports Complex_Main "HOL-Library.Word"
begin

section \<open>JavaScript values\<close>

text \<open>
  A parsed inbound frame is whatever \<^verbatim>\<open>JSON.parse\<close> returns, and the handlers read it
  untyped (\<^verbatim>\<open>data as any\<close>), so frames are modelled as JavaScript values and not
  as a typed record. An object is an association list of its own properties (a key is looked up
  with \<open>map_of\<close>). A number is kept as a rational: the code only tests numbers for truthiness.
\<close>

datatype jsval =
    JUndefined
  | JNull
  | JBool bool
  | JNum rat
  | JStr string
  | JArr "jsval list"
  | JObj "(string \<times> jsval) list"

text \<open>\<^verbatim>\<open>!v\<close> is \<open>\<not> truthy v\<close>: undefined, null, false, 0 and the empty string are falsy.\<close>

fun truthy :: "jsval \<Rightarrow> bool" where
  "truthy JUndefined = False"
| "truthy JNull = False"
| "truthy (JBool b) = b"
| "truthy (JNum n) = (n \<noteq> 0)"
| "truthy (JStr s) = (s \<noteq> [])"
| "truthy (JArr xs) = True"
| "truthy (JObj kvs) = True"

text \<open>
  \<^verbatim>\<open>v.k\<close>: reading a property of null or undefined throws a TypeError (\<open>None\<close>); a
  missing property, and any property of a primitive that the handlers read, is undefined.
\<close>

fun get_prop :: "jsval \<Rightarrow> string \<Rightarrow> jsval option" where
  "get_prop JUndefined k = None"
| "get_prop JNull k = None"
| "get_prop (JObj kvs) k = Some (case map_of kvs k of None \<Rightarrow> JUndefined | Some v \<Rightarrow> v)"
| "get_prop v k = Some JUndefined"

text \<open>\<^verbatim>\<open>v?.k\<close>: optional chaining gives undefined where \<^verbatim>\<open>v.k\<close> would throw.\<close>

definition opt_prop :: "jsval \<Rightarrow> string \<Rightarrow> jsval" where
  "opt_prop v k = (case get_prop v k of None \<Rightarrow> JUndefined | Some x \<Rightarrow> x)"

text \<open>\<^verbatim>\<open>a || b\<close>\<close>

definition js_or :: "jsval \<Rightarrow> jsval \<Rightarrow> jsval" where
  "js_or a b = (if truthy a then a else b)"

text \<open>\<^verbatim>\<open>s.includes(t)\<close> on strings: \<open>t\<close> occurs in \<open>s\<close> as a contiguous run.\<close>

fun starts_with :: "string \<Rightarrow> string \<Rightarrow> bool" where
  "starts_with s [] = True"
| "starts_with [] (y # ys) = False"
| "starts_with (x # xs) (y # ys) = (x = y \<and> starts_with xs ys)"

fun str_includes :: "string \<Rightarrow> string \<Rightarrow> bool" where
  "str_includes [] t = (t = [])"
| "str_includes (x # xs) t = (starts_with (x # xs) t \<or> str_includes xs t)"

section \<open>RealtimeBrowserClient: state\<close>

datatype ready_state = CONNECTING | OPEN | CLOSING | CLOSED

record websocket =
  url :: string
  readyState :: ready_state

text \<open>
  Everything the client does to the outside, in the order it does it: events handed to
  \<^verbatim>\<open>EventEmitter.emit\<close>, sockets created, frames written, sockets closed, timers set and
  cleared, lines written with \<^verbatim>\<open>console.error\<close>, and the settling calls of the promise
  that \<^verbatim>\<open>connect()\<close> returns, and an exception that leaves a socket's handler uncaught.
  Left out: \<^verbatim>\<open>console.log\<close> (debug output), and what the holder of a promise does once
  it is settled (the timer's callback logs a rejection).
\<close>

text \<open>
  What the handlers can throw: a TypeError for reading a property of null, and the error
  that \<^verbatim>\<open>EventEmitter.emit\<close> throws for an \<^verbatim>\<open>error\<close> event that has no listener.
\<close>

datatype js_exception = TypeError | UnhandledError

datatype effect =
    Emit jsval "jsval list"
  | WsNew nat string
  | WsSend nat jsval
  | WsClose nat nat string
  | SetTimeout nat nat
  | ClearTimeout nat
  | ConsoleError string
  | Resolve
  | Reject string
  | Uncaught js_exception

text \<open>
  The fields of the class, the number of listeners registered for the event named
  \<^verbatim>\<open>error\<close> in the \<^verbatim>\<open>EventEmitter\<close> the class extends, then the part of the browser the
  class acts on. \<open>ws\<close> and
  \<open>reconnectTimer\<close> are references: \<open>ws\<close> is the index of a socket in \<open>sockets\<close> (every socket
  ever created stays there, with its handlers attached, whether or not the client still refers
  to it), \<open>reconnectTimer\<close> is a timer handle, and \<open>timers\<close> holds the handles still pending
  with their delays in milliseconds. Handles count from 1, so a handle is always truthy.
\<close>

record client =
  ws :: "nat option"
  apiKey :: string
  model :: string
  debug :: bool
  isConnected :: bool
  sessionId :: jsval
  reconnectTimer :: "nat option"
  reconnectAttempts :: nat
  maxReconnectAttempts :: nat
  reconnectDelay :: nat
  errorListeners :: nat
  sockets :: "websocket list"
  timers :: "(nat \<times> nat) list"
  timerCount :: nat
  effects :: "effect list"

record realtime_config =
  config_apiKey :: string
  config_model :: "string option"
  config_debug :: "bool option"

definition new_client :: "realtime_config \<Rightarrow> client" where
  "new_client config =
     \<lparr> ws = None,
       apiKey = config_apiKey config,
       model = (case config_model config of
                  None \<Rightarrow> ''gpt-4o-realtime-preview-2024-10-01''
                | Some m \<Rightarrow> if m = [] then ''gpt-4o-realtime-preview-2024-10-01'' else m),
       debug = (case config_debug config of None \<Rightarrow> False | Some d \<Rightarrow> d),
       isConnected = False,
       sessionId = JNull,
       reconnectTimer = None,
       reconnectAttempts = 0,
       maxReconnectAttempts = 5,
       reconnectDelay = 1000,
       errorListeners = 0,
       sockets = [],
       timers = [],
       timerCount = 0,
       effects = [] \<rparr>"

section \<open>RealtimeBrowserClient: primitives of the platform\<close>

text \<open>
  A method or handler either returns, with the client as it then is, or throws, with the
  exception and the client as it was at the throw.
\<close>

type_synonym result = "(js_exception \<times> client) + client"

definition and_then :: "result \<Rightarrow> (client \<Rightarrow> result) \<Rightarrow> result" where
  "and_then r f = (case r of Inl x \<Rightarrow> Inl x | Inr c \<Rightarrow> f c)"

text \<open>
  \<^verbatim>\<open>emit\<close> and \<^verbatim>\<open>on\<close> are inherited from \<^verbatim>\<open>EventEmitter\<close>, which is not part of the
  repository. A call of \<^verbatim>\<open>emit\<close> is recorded with its event name and arguments; the one
  for the event named \<^verbatim>\<open>error\<close> throws instead when no listener is registered for that
  event, as \<^verbatim>\<open>EventEmitter\<close> does. Listeners themselves are taken to return normally. Of
  \<^verbatim>\<open>on\<close> only the count of \<^verbatim>\<open>error\<close> listeners is kept.
\<close>

definition emit :: "jsval \<Rightarrow> jsval list \<Rightarrow> client \<Rightarrow> result" where
  "emit name args c =
     (if name = JStr ''error'' \<and> errorListeners c = 0 then Inl (UnhandledError, c)
      else Inr (c\<lparr>effects := effects c @ [Emit name args]\<rparr>))"

definition add_listener :: "jsval \<Rightarrow> client \<Rightarrow> client" where
  "add_listener name c =
     (if name = JStr ''error'' then c\<lparr>errorListeners := errorListeners c + 1\<rparr> else c)"

definition logError :: "string \<Rightarrow> client \<Rightarrow> client" where
  "logError msg c = c\<lparr>effects := effects c @ [ConsoleError msg]\<rparr>"

definition setTimeout :: "nat \<Rightarrow> client \<Rightarrow> nat \<times> client" where
  "setTimeout delay c =
     (let h = timerCount c + 1
      in (h, c\<lparr>timers := timers c @ [(h, delay)], timerCount := h,
               effects := effects c @ [SetTimeout h delay]\<rparr>))"

definition clearTimeout :: "nat \<Rightarrow> client \<Rightarrow> client" where
  "clearTimeout h c =
     c\<lparr>timers := filter (\<lambda>t. fst t \<noteq> h) (timers c),
       effects := effects c @ [ClearTimeout h]\<rparr>"

text \<open>\<^verbatim>\<open>new WebSocket(url)\<close>: a fresh socket in state CONNECTING; its index is returned.\<close>

definition new_WebSocket :: "string \<Rightarrow> client \<Rightarrow> nat \<times> client" where
  "new_WebSocket u c =
     (let a = length (sockets c)
      in (a, c\<lparr>sockets := sockets c @ [\<lparr>url = u, readyState = CONNECTING\<rparr>],
               effects := effects c @ [WsNew a u]\<rparr>))"

definition set_readyState :: "nat \<Rightarrow> ready_state \<Rightarrow> client \<Rightarrow> client" where
  "set_readyState a s c = c\<lparr>sockets := (sockets c)[a := (sockets c ! a)\<lparr>readyState := s\<rparr>]\<rparr>"

text \<open>\<^verbatim>\<open>socket.send(frame)\<close>; the frame is kept as the value that is serialised.\<close>

definition ws_send :: "nat \<Rightarrow> jsval \<Rightarrow> client \<Rightarrow> client" where
  "ws_send a frame c = c\<lparr>effects := effects c @ [WsSend a frame]\<rparr>"

text \<open>\<^verbatim>\<open>socket.close(code, reason)\<close>: a socket that is not yet closed starts closing.\<close>

definition ws_close :: "nat \<Rightarrow> nat \<Rightarrow> string \<Rightarrow> client \<Rightarrow> client" where
  "ws_close a code reason c =
     (let c1 = (if readyState (sockets c ! a) = CLOSED then c else set_readyState a CLOSING c)
      in c1\<lparr>effects := effects c1 @ [WsClose a code reason]\<rparr>)"

section \<open>Base64: \<^verbatim>\<open>btoa\<close> and \<^verbatim>\<open>atob\<close>\<close>

text \<open>
  \<^verbatim>\<open>btoa\<close> and \<^verbatim>\<open>atob\<close> are functions of the browser, not of the repository. They are
  modelled after their definition in the HTML standard: \<^verbatim>\<open>btoa\<close> refuses a string with a
  code unit above 255 and otherwise encodes the code units as bytes in base64 with padding
  (RFC 4648, section 4); \<^verbatim>\<open>atob\<close> is the standard's forgiving base64 decoder. A string of
  JavaScript handed to \<^verbatim>\<open>btoa\<close> is a list of code units; base64 text is a \<open>string\<close>.
\<close>

datatype dom_exception = InvalidCharacterError

definition b64_alphabet :: string where
  "b64_alphabet = ''ABCDEFGHIJKLMNOPQRSTUVWXYZabcdefghijklmnopqrstuvwxyz0123456789+/''"

definition b64_char :: "nat \<Rightarrow> char" where
  "b64_char i = b64_alphabet ! i"

fun b64_encode :: "nat list \<Rightarrow> string" where
  "b64_encode [] = []"
| "b64_encode [a] =
     [b64_char (a div 4), b64_char ((a mod 4) * 16), CHR ''='', CHR ''='']"
| "b64_encode [a, b] =
     [b64_char (a div 4), b64_char ((a mod 4) * 16 + b div 16),
      b64_char ((b mod 16) * 4), CHR ''='']"
| "b64_encode (a # b # c # rest) =
     [b64_char (a div 4), b64_char ((a mod 4) * 16 + b div 16),
      b64_char ((b mod 16) * 4 + c div 64), b64_char (c mod 64)] @ b64_encode rest"

definition btoa :: "nat list \<Rightarrow> dom_exception + string" where
  "btoa s = (if list_ex (\<lambda>u. 255 < u) s then Inl InvalidCharacterError else Inr (b64_encode s))"

definition ascii_whitespace :: "char \<Rightarrow> bool" where
  "ascii_whitespace c = (of_char c \<in> {9, 10, 12, 13, 32 :: nat})"

fun index_of :: "'a \<Rightarrow> 'a list \<Rightarrow> nat option" where
  "index_of x [] = None"
| "index_of x (y # ys) = (if x = y then Some 0 else map_option Suc (index_of x ys))"

definition b64_value :: "char \<Rightarrow> nat option" where
  "b64_value c = index_of c b64_alphabet"

definition drop_last_eq :: "string \<Rightarrow> string" where
  "drop_last_eq s = (if s \<noteq> [] \<and> last s = CHR ''='' then butlast s else s)"

definition strip_padding :: "string \<Rightarrow> string" where
  "strip_padding s = (if length s mod 4 = 0 then drop_last_eq (drop_last_eq s) else s)"

text \<open>
  The decoder's bit buffer, four sextets at a time: 24 bits give three bytes; 18 bits left at
  the end lose their last two and give two bytes; 12 bits lose their last four and give one.
\<close>

fun b64_decode_sextets :: "nat list \<Rightarrow> nat list" where
  "b64_decode_sextets (s0 # s1 # s2 # s3 # rest) =
     (let n = ((s0 * 64 + s1) * 64 + s2) * 64 + s3
      in [n div 65536, n div 256 mod 256, n mod 256]) @ b64_decode_sextets rest"
| "b64_decode_sextets [s0, s1, s2] =
     (let n = ((s0 * 64 + s1) * 64 + s2) div 4 in [n div 256, n mod 256])"
| "b64_decode_sextets [s0, s1] = [(s0 * 64 + s1) div 16]"
| "b64_decode_sextets [s0] = []"
| "b64_decode_sextets [] = []"

definition atob :: "string \<Rightarrow> dom_exception + nat list" where
  "atob data =
     (let d = strip_padding (filter (\<lambda>c. \<not> ascii_whitespace c) data)
      in if length d mod 4 = 1 then Inl InvalidCharacterError
         else (case those (map b64_value d) of
                 None \<Rightarrow> Inl InvalidCharacterError
               | Some sextets \<Rightarrow> Inr (b64_decode_sextets sextets)))"

text \<open>
  \<^verbatim>\<open>arrayBufferToBase64\<close>: each byte of the buffer becomes one code unit
  (\<^verbatim>\<open>String.fromCharCode\<close>), and the string goes to \<^verbatim>\<open>btoa\<close>.
\<close>

definition arrayBufferToBase64 :: "8 word list \<Rightarrow> dom_exception + string" where
  "arrayBufferToBase64 buffer = btoa (map unat buffer)"

text \<open>
  \<^verbatim>\<open>AudioPlayer.playBase64Audio\<close> up to the byte array it hands to \<^verbatim>\<open>playAudioData\<close>:
  \<^verbatim>\<open>atob\<close>, then each code unit (\<^verbatim>\<open>charCodeAt\<close>) is stored in a \<^verbatim>\<open>Uint8Array\<close>, which
  keeps it modulo 256.
\<close>

definition playBase64Audio_bytes :: "string \<Rightarrow> dom_exception + 8 word list" where
  "playBase64Audio_bytes base64Audio =
     (case atob base64Audio of
        Inl e \<Rightarrow> Inl e
      | Inr binaryString \<Rightarrow> Inr (map of_nat binaryString))"

section \<open>RealtimeBrowserClient: methods\<close>

definition send :: "jsval \<Rightarrow> client \<Rightarrow> client" where
  "send data c =
     (case ws c of
        None \<Rightarrow> logError ''Cannot send: WebSocket not connected'' c
      | Some a \<Rightarrow>
          if readyState (sockets c ! a) \<noteq> OPEN
          then logError ''Cannot send: WebSocket not connected'' c
          else ws_send a data c)"

definition sendAuthMessage :: "client \<Rightarrow> client" where
  "sendAuthMessage c =
     send (JObj [(''type'', JStr ''session.update''),
                 (''session'', JObj [(''modalities'', JArr [JStr ''text'', JStr ''audio'']),
                                     (''instructions'', JStr ''You are a helpful assistant.''),
                                     (''voice'', JStr ''alloy''),
                                     (''input_audio_format'', JStr ''pcm16''),
                                     (''output_audio_format'', JStr ''pcm16''),
                                     (''temperature'', JNum (4 / 5)),
                                     (''api_key'', JStr (apiKey c))])]) c"

text \<open>
  \<^verbatim>\<open>URLSearchParams.toString()\<close> for one value: letters, digits and \<^verbatim>\<open>*-._\<close> stay, a space
  becomes \<^verbatim>\<open>+\<close>, every other byte becomes \<^verbatim>\<open>%\<close> and two hexadecimal digits. A string
  is held as the bytes of its UTF-8 form.
\<close>

definition url_unreserved :: "char \<Rightarrow> bool" where
  "url_unreserved ch =
     (let n = (of_char ch :: nat)
      in (48 \<le> n \<and> n \<le> 57) \<or> (65 \<le> n \<and> n \<le> 90) \<or> (97 \<le> n \<and> n \<le> 122)
         \<or> n = 42 \<or> n = 45 \<or> n = 46 \<or> n = 95)"

definition hex_digit :: "nat \<Rightarrow> char" where
  "hex_digit n = ''0123456789ABCDEF'' ! n"

fun urlencode :: "string \<Rightarrow> string" where
  "urlencode [] = []"
| "urlencode (ch # cs) =
     (if url_unreserved ch then [ch]
      else if ch = CHR '' '' then ''+''
      else [CHR ''%'', hex_digit ((of_char ch :: nat) div 16),
            hex_digit ((of_char ch :: nat) mod 16)])
     @ urlencode cs"

text \<open>
  \<^verbatim>\<open>connect()\<close> up to the point where it returns its promise: the socket is created and
  the four handlers below are attached to it. The constructor accepts the address, so the
  \<^verbatim>\<open>catch\<close> around it is never entered.
\<close>

definition connect :: "client \<Rightarrow> client" where
  "connect c =
     (let (a, c1) = new_WebSocket
                      (''wss://api.openai.com/v1/realtime?model='' @ urlencode (model c)) c
      in c1\<lparr>ws := Some a\<rparr>)"

text \<open>
  The timer's callback is \<^verbatim>\<open>connect()\<close>; it runs when the timer fires (event \<open>TimerFires\<close>
  below). The power is a floating-point one in the source, exact on these values.
\<close>

definition scheduleReconnect :: "client \<Rightarrow> client" where
  "scheduleReconnect c =
     (let c1 = c\<lparr>reconnectAttempts := reconnectAttempts c + 1\<rparr>;
          delay = min (reconnectDelay c1 * 2 ^ (reconnectAttempts c1 - 1)) 30000;
          (h, c2) = setTimeout delay c1
      in c2\<lparr>reconnectTimer := Some h\<rparr>)"

definition disconnect :: "client \<Rightarrow> client" where
  "disconnect c =
     (let c1 = (case reconnectTimer c of
                  None \<Rightarrow> c
                | Some h \<Rightarrow> (clearTimeout h c)\<lparr>reconnectTimer := None\<rparr>);
          c2 = (case ws c1 of
                  None \<Rightarrow> c1
                | Some a \<Rightarrow> (ws_close a 1000 ''Client disconnect'' c1)\<lparr>ws := None\<rparr>)
      in c2\<lparr>isConnected := False, sessionId := JNull\<rparr>)"

definition getConnectionStatus :: "client \<Rightarrow> bool" where
  "getConnectionStatus c = isConnected c"

definition getSessionId :: "client \<Rightarrow> jsval" where
  "getSessionId c = sessionId c"

definition handleError :: "jsval \<Rightarrow> client \<Rightarrow> result" where
  "handleError data c =
     (let error = js_or (opt_prop data ''error'') (JObj []);
          c1 = logError ''API Error:'' c;
          code = opt_prop error ''code''
      in if code = JStr ''invalid_api_key'' \<or> code = JStr ''authentication_error''
         then and_then
                (emit (JStr ''error'')
                   [JObj [(''type'', JStr ''authentication_error''),
                          (''message'', js_or (opt_prop error ''message'') (JStr ''Invalid API key'')),
                          (''code'', code)]] c1)
                (\<lambda>c2. Inr (disconnect c2))
         else emit (JStr ''error'') [error] c1)"

text \<open>
  The switch of \<^verbatim>\<open>handleMessage\<close>, case by case in the source's order (the comparison is
  \<^verbatim>\<open>===\<close>, so a type that is not a string reaches the default case). Once \<^verbatim>\<open>data.type\<close>
  has been read, \<open>data\<close> is neither null nor undefined, and its other properties are read
  with \<open>opt_prop\<close>.
\<close>

definition dispatch :: "jsval \<Rightarrow> jsval \<Rightarrow> client \<Rightarrow> result" where
  "dispatch eventType data c =
     (if eventType = JStr ''error'' then handleError data c
      else if eventType = JStr ''session.created'' then
        emit (JStr ''session.created'') [opt_prop data ''session'']
          (c\<lparr>sessionId := opt_prop (opt_prop data ''session'') ''id''\<rparr>)
      else if eventType = JStr ''session.updated'' then
        emit (JStr ''session.updated'') [opt_prop data ''session''] c
      else if eventType = JStr ''conversation.item.created'' then
        emit (JStr ''conversation.item.created'') [opt_prop data ''item''] c
      else if eventType = JStr ''conversation.item.input_audio_transcription.completed'' then
        emit (JStr ''transcription.completed'') [data] c
      else if eventType = JStr ''conversation.item.input_audio_transcription.failed'' then
        emit (JStr ''transcription.failed'') [data] c
      else if eventType = JStr ''response.created'' then
        emit (JStr ''response.created'') [opt_prop data ''response''] c
      else if eventType = JStr ''response.done'' then
        emit (JStr ''response.done'') [opt_prop data ''response''] c
      else if eventType = JStr ''response.text.delta'' then
        emit (JStr ''response.text.delta'') [opt_prop data ''delta''] c
      else if eventType = JStr ''response.text.done'' then
        emit (JStr ''response.text.done'') [opt_prop data ''text''] c
      else if eventType = JStr ''response.audio_transcript.delta'' then
        emit (JStr ''response.audio_transcript.delta'') [opt_prop data ''delta''] c
      else if eventType = JStr ''response.audio_transcript.done'' then
        emit (JStr ''response.audio_transcript.done'') [opt_prop data ''transcript''] c
      else if eventType = JStr ''response.audio.delta'' then
        emit (JStr ''response.audio.delta'') [opt_prop data ''delta''] c
      else if eventType = JStr ''response.audio.done'' then
        emit (JStr ''response.audio.done'') [data] c
      else if eventType = JStr ''input_audio_buffer.speech_started'' then
        emit (JStr ''speech.started'') [data] c
      else if eventType = JStr ''input_audio_buffer.speech_stopped'' then
        emit (JStr ''speech.stopped'') [data] c
      else if eventType = JStr ''input_audio_buffer.committed'' then
        emit (JStr ''input_audio_buffer.committed'') [data] c
      else if eventType = JStr ''input_audio_buffer.cleared'' then
        emit (JStr ''input_audio_buffer.cleared'') [data] c
      else if eventType = JStr ''rate_limits.updated'' then
        emit (JStr ''rate_limits.updated'') [opt_prop data ''rate_limits''] c
      else emit eventType [data] c)"

text \<open>The case labels of the switch: the event types the client knows.\<close>

definition known_event_types :: "string list" where
  "known_event_types =
     [''error'', ''session.created'', ''session.updated'', ''conversation.item.created'',
      ''conversation.item.input_audio_transcription.completed'',
      ''conversation.item.input_audio_transcription.failed'',
      ''response.created'', ''response.done'', ''response.text.delta'', ''response.text.done'',
      ''response.audio_transcript.delta'', ''response.audio_transcript.done'',
      ''response.audio.delta'', ''response.audio.done'',
      ''input_audio_buffer.speech_started'', ''input_audio_buffer.speech_stopped'',
      ''input_audio_buffer.committed'', ''input_audio_buffer.cleared'', ''rate_limits.updated'']"

definition handleMessage :: "jsval \<Rightarrow> client \<Rightarrow> result" where
  "handleMessage data c =
     (case get_prop data ''type'' of
        None \<Rightarrow> Inl (TypeError, c)
      | Some eventType \<Rightarrow>
          if \<not> truthy eventType
          then Inr (logError ''Received message without type:'' c)
          else dispatch eventType data c)"

section \<open>RealtimeBrowserClient: the handlers attached to a socket\<close>

text \<open>A message's text either fails to parse or parses to a value.\<close>

datatype message = Malformed | Parsed jsval

text \<open>
  An exception that leaves a handler is caught by nobody: the handler stops there, and the
  client stays as it was at the throw.
\<close>

definition uncaught :: "result \<Rightarrow> client" where
  "uncaught r =
     (case r of
        Inl (e, c) \<Rightarrow> c\<lparr>effects := effects c @ [Uncaught e]\<rparr>
      | Inr c \<Rightarrow> c)"

definition ws_onopen :: "client \<Rightarrow> client" where
  "ws_onopen c =
     (let c1 = c\<lparr>isConnected := True, reconnectAttempts := 0\<rparr>;
          c2 = sendAuthMessage c1
      in uncaught
           (and_then (emit (JStr ''connected'') [] c2)
              (\<lambda>c3. Inr (c3\<lparr>effects := effects c3 @ [Resolve]\<rparr>))))"

definition ws_onmessage :: "message \<Rightarrow> client \<Rightarrow> client" where
  "ws_onmessage m c =
     (case m of
        Malformed \<Rightarrow> logError ''Failed to parse message:'' c
      | Parsed data \<Rightarrow>
          (case handleMessage data c of
             Inl (e, c1) \<Rightarrow> logError ''Failed to parse message:'' c1
           | Inr c' \<Rightarrow> c'))"

definition ws_onerror :: "jsval \<Rightarrow> client \<Rightarrow> client" where
  "ws_onerror error c =
     uncaught
       (emit (JStr ''error'')
          [JObj [(''type'', JStr ''websocket_error''),
                 (''message'', JStr ''WebSocket connection error''),
                 (''error'', error)]]
          (logError ''WebSocket error:'' c))"

definition ws_onclose :: "nat \<Rightarrow> string \<Rightarrow> client \<Rightarrow> client" where
  "ws_onclose code reason c =
     uncaught
       (and_then
          (emit (JStr ''disconnected'')
             [JObj [(''code'', JNum (of_nat code)), (''reason'', JStr reason)]]
             (c\<lparr>isConnected := False\<rparr>))
          (\<lambda>c1. if code = 1008 \<or> str_includes reason ''auth'' then
                   and_then
                     (emit (JStr ''error'')
                        [JObj [(''type'', JStr ''authentication_error''),
                               (''message'',
                                JStr ''Authentication failed. Please check your API key.''),
                               (''code'', JNum (of_nat code)),
                               (''reason'', JStr reason)]] c1)
                     (\<lambda>c2. Inr (c2\<lparr>effects := effects c2 @ [Reject ''Authentication failed'']\<rparr>))
                 else if code \<noteq> 1000 \<and> reconnectAttempts c1 < maxReconnectAttempts c1
                 then Inr (scheduleReconnect c1)
                 else Inr c1))"

section \<open>RealtimeBrowserClient: commands\<close>

definition updateSession :: "jsval \<Rightarrow> client \<Rightarrow> client" where
  "updateSession session c =
     send (JObj [(''type'', JStr ''session.update''), (''session'', session)]) c"

text \<open>A command that calls \<^verbatim>\<open>btoa\<close> throws what \<^verbatim>\<open>btoa\<close> throws.\<close>

definition appendInputAudio :: "8 word list \<Rightarrow> client \<Rightarrow> dom_exception + client" where
  "appendInputAudio audioData c =
     (case arrayBufferToBase64 audioData of
        Inl e \<Rightarrow> Inl e
      | Inr base64Audio \<Rightarrow>
          Inr (send (JObj [(''type'', JStr ''input_audio_buffer.append''),
                           (''audio'', JStr base64Audio)]) c))"

definition commitInputAudio :: "client \<Rightarrow> client" where
  "commitInputAudio c = send (JObj [(''type'', JStr ''input_audio_buffer.commit'')]) c"

definition clearInputAudio :: "client \<Rightarrow> client" where
  "clearInputAudio c = send (JObj [(''type'', JStr ''input_audio_buffer.clear'')]) c"

text \<open>
  \<^verbatim>\<open>{type: 'response.create', ...options}\<close>: a key of \<open>options\<close> comes after \<open>type\<close> and
  wins over it, so with first-match lookup the options stand first.
\<close>

definition createResponse :: "(string \<times> jsval) list \<Rightarrow> client \<Rightarrow> client" where
  "createResponse options c = send (JObj (options @ [(''type'', JStr ''response.create'')])) c"

definition cancelResponse :: "client \<Rightarrow> client" where
  "cancelResponse c = send (JObj [(''type'', JStr ''response.cancel'')]) c"

section \<open>RealtimeBrowserClient: runs\<close>

text \<open>
  What can happen to a client, one event at a time (the client runs on a single event loop):
  a socket opens, delivers a message, reports an error or closes with a code and a reason; a
  pending timer fires and runs its callback; the application calls \<^verbatim>\<open>connect()\<close> or
  \<^verbatim>\<open>disconnect()\<close>. The browser moves the socket to its new state before it runs the
  handler, only an open socket delivers messages, a socket closes once, and only a pending
  timer fires. The handlers refer to the client and not to the socket they are attached to, so
  a socket the client has dropped still runs them.
\<close>

datatype event =
    SocketOpen nat
  | SocketMessage nat message
  | SocketError nat jsval
  | SocketClose nat nat string
  | TimerFires nat
  | CallConnect
  | CallDisconnect

fun step :: "event \<Rightarrow> client \<Rightarrow> client" where
  "step (SocketOpen a) c =
     (if a < length (sockets c) \<and> readyState (sockets c ! a) = CONNECTING
      then ws_onopen (set_readyState a OPEN c) else c)"
| "step (SocketMessage a m) c =
     (if a < length (sockets c) \<and> readyState (sockets c ! a) = OPEN
      then ws_onmessage m c else c)"
| "step (SocketError a error) c =
     (if a < length (sockets c) \<and> readyState (sockets c ! a) \<noteq> CLOSED
      then ws_onerror error c else c)"
| "step (SocketClose a code reason) c =
     (if a < length (sockets c) \<and> readyState (sockets c ! a) \<noteq> CLOSED
      then ws_onclose code reason (set_readyState a CLOSED c) else c)"
| "step (TimerFires h) c =
     (if h \<in> fst ` set (timers c)
      then connect (c\<lparr>timers := filter (\<lambda>t. fst t \<noteq> h) (timers c)\<rparr>) else c)"
| "step CallConnect c = connect c"
| "step CallDisconnect c = disconnect c"

definition run :: "event list \<Rightarrow> client \<Rightarrow> client" where
  "run evs c = fold step evs c"

section \<open>SimpleRealtimeClient: subscriptions\<close>

text \<open>
  A handler is a function object, compared by identity (\<^verbatim>\<open>indexOf\<close> uses \<^verbatim>\<open>===\<close>): it is
  modelled by a number that names it. Calling a handler is recorded, with the event it was
  given, in \<open>calls\<close>; a handler is taken to return normally and to leave the registry alone.
\<close>

record simple_client =
  eventHandlers :: "string \<rightharpoonup> nat list"
  connected :: bool
  calls :: "(nat \<times> jsval) list"
  console :: "string list"

definition on_simple :: "string \<Rightarrow> nat \<Rightarrow> simple_client \<Rightarrow> simple_client" where
  "on_simple event handler c =
     (let m = (if eventHandlers c event = None then (eventHandlers c)(event \<mapsto> [])
               else eventHandlers c)
      in case m event of
           None \<Rightarrow> c\<lparr>eventHandlers := m\<rparr>
         | Some handlers \<Rightarrow> c\<lparr>eventHandlers := m(event \<mapsto> handlers @ [handler])\<rparr>)"

definition off_simple :: "string \<Rightarrow> nat \<Rightarrow> simple_client \<Rightarrow> simple_client" where
  "off_simple event handler c =
     (case eventHandlers c event of
        None \<Rightarrow> c
      | Some handlers \<Rightarrow>
          (case index_of handler handlers of
             None \<Rightarrow> c
           | Some index \<Rightarrow>
               c\<lparr>eventHandlers :=
                    (eventHandlers c)(event \<mapsto> take index handlers @ drop (Suc index) handlers)\<rparr>))"

text \<open>
  \<^verbatim>\<open>emit(event, data)\<close>. The registry's keys are strings, so an event name that is not a
  string (a frame's \<^verbatim>\<open>type\<close> can be anything) finds no handlers.
\<close>

definition emit_simple :: "jsval \<Rightarrow> jsval \<Rightarrow> simple_client \<Rightarrow> simple_client" where
  "emit_simple event data c =
     (case (case event of JStr name \<Rightarrow> eventHandlers c name | _ \<Rightarrow> None) of
        None \<Rightarrow> c
      | Some handlers \<Rightarrow> c\<lparr>calls := calls c @ map (\<lambda>handler. (handler, data)) handlers\<rparr>)"

definition onmessage_simple :: "message \<Rightarrow> simple_client \<Rightarrow> simple_client" where
  "onmessage_simple m c =
     (case m of
        Malformed \<Rightarrow> c\<lparr>console := console c @ [''Failed to parse message:'']\<rparr>
      | Parsed data \<Rightarrow>
          (case get_prop data ''type'' of
             None \<Rightarrow> c\<lparr>console := console c @ [''Failed to parse message:'']\<rparr>
           | Some t \<Rightarrow> emit_simple (JStr ''*'') data (emit_simple t data c)))"

text \<open>The handlers registered for an event name, in the registry's order.\<close>

definition listeners :: "simple_client \<Rightarrow> string \<Rightarrow> nat list" where
  "listeners c event = (case eventHandlers c event of None \<Rightarrow> [] | Some handlers \<Rightarrow> handlers)"

section \<open>Reading a client's effects\<close>

text \<open>The events emitted, with their arguments, in order.\<close>

fun emitted :: "effect list \<Rightarrow> (jsval \<times> jsval list) list" where
  "emitted [] = []"
| "emitted (Emit name args # es) = (name, args) # emitted es"
| "emitted (e # es) = emitted es"

text \<open>The delays of the timers set, in order.\<close>

fun scheduled :: "effect list \<Rightarrow> nat list" where
  "scheduled [] = []"
| "scheduled (SetTimeout h delay # es) = delay # scheduled es"
| "scheduled (e # es) = scheduled es"

text \<open>The frames written to a socket, in order.\<close>

fun written :: "effect list \<Rightarrow> jsval list" where
  "written [] = []"
| "written (WsSend a frame # es) = frame # written es"
| "written (e # es) = written es"

text \<open>The sockets created, in order: each one is a connection attempt.\<close>

fun attempted :: "effect list \<Rightarrow> nat list" where
  "attempted [] = []"
| "attempted (WsNew a u # es) = a # attempted es"
| "attempted (e # es) = attempted es"

text \<open>The lines written with \<^verbatim>\<open>console.error\<close>, in order.\<close>

fun logged :: "effect list \<Rightarrow> string list" where
  "logged [] = []"
| "logged (ConsoleError msg # es) = msg # logged es"
| "logged (e # es) = logged es"

text \<open>A run in which no socket opens.\<close>

fun is_open :: "event \<Rightarrow> bool" where
  "is_open (SocketOpen a) = True"
| "is_open e = False"

section \<open>The shape of an encoding\<close>

text \<open>
  For the proofs about \<open>b64_encode\<close>: the six-bit values it writes, and the number of padding
  characters it ends with.
\<close>

fun sextets :: "nat list \<Rightarrow> nat list" where
  "sextets [] = []"
| "sextets [a] = [a div 4, (a mod 4) * 16]"
| "sextets [a, b] = [a div 4, (a mod 4) * 16 + b div 16, (b mod 16) * 4]"
| "sextets (a # b # c # rest) =
     [a div 4, (a mod 4) * 16 + b div 16, (b mod 16) * 4 + c div 64, c mod 64] @ sextets rest"

fun padding :: "nat list \<Rightarrow> nat" where
  "padding [] = 0"
| "padding [a] = 2"
| "padding [a, b] = 1"
| "padding (a # b # c # rest) = padding rest"

section \<open>Notions used in the statements\<close>

text \<open>The client a method leaves behind, whether it returned or threw.\<close>

definition state_of :: "result \<Rightarrow> client" where
  "state_of r = (case r of Inl (e, c) \<Rightarrow> c | Inr c \<Rightarrow> c)"

definition example_config :: realtime_config where
  "example_config = \<lparr>config_apiKey = ''sk-test'', config_model = None, config_debug = None\<rparr>"

text \<open>The connection is not open: the guard of \<^verbatim>\<open>send\<close>.\<close>

definition not_open :: "client \<Rightarrow> bool" where
  "not_open c = (case ws c of None \<Rightarrow> True | Some a \<Rightarrow> readyState (sockets c ! a) \<noteq> OPEN)"

text \<open>A parsed frame with no usable type: reading \<^verbatim>\<open>type\<close> fails or gives a falsy value.\<close>

definition untyped :: "jsval \<Rightarrow> bool" where
  "untyped data = (case get_prop data ''type'' of None \<Rightarrow> True | Some t \<Rightarrow> \<not> truthy t)"

text \<open>
  The event \<^verbatim>\<open>handleError\<close> emits for the error code \<^verbatim>\<open>invalid_api_key\<close>: its name and
  its argument, built from the frame's \<^verbatim>\<open>error\<close> object.
\<close>

definition auth_error_event :: "jsval \<Rightarrow> jsval \<times> jsval list" where
  "auth_error_event error =
     (JStr ''error'',
      [JObj [(''type'', JStr ''authentication_error''),
             (''message'', js_or (opt_prop error ''message'') (JStr ''Invalid API key'')),
             (''code'', JStr ''invalid_api_key'')]])"

text \<open>The frame \<^verbatim>\<open>{type: "error", error: {code: "invalid_api_key"}}\<close>.\<close>

definition invalid_api_key_frame :: jsval where
  "invalid_api_key_frame =
     JObj [(''type'', JStr ''error''), (''error'', JObj [(''code'', JStr ''invalid_api_key'')])]"

text \<open>
  The timers set so far plus the reconnection attempts still allowed: a measure that no event
  but a socket's opening can raise.
\<close>

definition budget :: "client \<Rightarrow> nat" where
  "budget c = length (scheduled (effects c)) + (maxReconnectAttempts c - reconnectAttempts c)"

text \<open>A \<^verbatim>\<open>SimpleRealtimeClient\<close> as its constructor leaves it.\<close>

definition new_simple_client :: simple_client where
  "new_simple_client = \<lparr>eventHandlers = Map.empty, connected = False, calls = [], console = []\<rparr>"

section \<open>Base64 round trip\<close>

lemma index_of_nth: "distinct xs \<Longrightarrow> i < length xs \<Longrightarrow> index_of (xs ! i) xs = Some i"
proof (induction xs arbitrary: i)
  case Nil
  then show ?case by simp
next
  case (Cons x xs)
  show ?case
  proof (cases i)
    case 0
    then show ?thesis by simp
  next
    case (Suc j)
    with Cons.prems have "xs ! j \<noteq> x" "j < length xs" "distinct xs" by auto
    with Cons.IH [of j] Suc show ?thesis by simp
  qed
qed

lemma length_b64_alphabet: "length b64_alphabet = 64"
  by (simp add: b64_alphabet_def)

lemma distinct_b64_alphabet: "distinct b64_alphabet"
  by (simp add: b64_alphabet_def)

lemma b64_value_char: "i < 64 \<Longrightarrow> b64_value (b64_char i) = Some i"
  by (simp add: b64_value_def b64_char_def index_of_nth distinct_b64_alphabet length_b64_alphabet)

lemma b64_char_in: "i < 64 \<Longrightarrow> b64_char i \<in> set b64_alphabet"
  by (simp add: b64_char_def length_b64_alphabet)

lemma b64_char_not_pad: "i < 64 \<Longrightarrow> b64_char i \<noteq> CHR ''=''"
proof -
  have "CHR ''='' \<notin> set b64_alphabet" by (simp add: b64_alphabet_def)
  then show "i < 64 \<Longrightarrow> b64_char i \<noteq> CHR ''=''" using b64_char_in [of i] by auto
qed

lemma b64_char_not_space: "i < 64 \<Longrightarrow> \<not> ascii_whitespace (b64_char i)"
proof -
  have "\<forall>c \<in> set b64_alphabet. \<not> ascii_whitespace c"
    by (simp add: b64_alphabet_def ascii_whitespace_def)
  then show "i < 64 \<Longrightarrow> \<not> ascii_whitespace (b64_char i)" using b64_char_in [of i] by blast
qed

lemma pad_not_space: "\<not> ascii_whitespace CHR ''=''"
  by (simp add: ascii_whitespace_def)

lemma encode_shape: "b64_encode bs = map b64_char (sextets bs) @ replicate (padding bs) CHR ''=''"
  by (induction bs rule: b64_encode.induct) (simp_all add: numeral_2_eq_2)

lemma sextets_small: "\<forall>b \<in> set bs. b < 256 \<Longrightarrow> \<forall>s \<in> set (sextets bs). s < 64"
proof (induction bs rule: sextets.induct)
  case 1
  then show ?case by simp
next
  case (2 a)
  then show ?case by (simp; arith)
next
  case (3 a b)
  then show ?case by (simp; arith)
next
  case (4 a b c rest)
  then have "a < 256" "b < 256" "c < 256" by simp_all
  then have "a div 4 < 64" "(a mod 4) * 16 + b div 16 < 64" "(b mod 16) * 4 + c div 64 < 64" "c mod 64 < 64"
    by arith+
  with 4 show ?case by simp
qed

lemma padding_le: "padding bs \<le> 2"
  by (induction bs rule: padding.induct) simp_all

lemma length_shape: "(length (sextets bs) + padding bs) mod 4 = 0"
  by (induction bs rule: sextets.induct) simp_all

lemma length_sextets: "length (sextets bs) mod 4 \<noteq> 1"
  by (induction bs rule: sextets.induct) simp_all

lemma group3:
  fixes a b c :: nat
  assumes "a < 256" "b < 256" "c < 256"
  defines "n \<equiv> (((a div 4) * 64 + ((a mod 4) * 16 + b div 16)) * 64 + ((b mod 16) * 4 + c div 64)) * 64 + c mod 64"
  shows "n div 65536 = a" "n div 256 mod 256 = b" "n mod 256 = c"
proof -
  define a1 a0 b1 b0 c1 c0
    where "a1 = a div 4" and "a0 = a mod 4" and "b1 = b div 16" and "b0 = b mod 16"
      and "c1 = c div 64" and "c0 = c mod 64"
  have a: "a = a1 * 4 + a0" and b: "b = b1 * 16 + b0" and c: "c = c1 * 64 + c0"
    by (simp_all add: a1_def a0_def b1_def b0_def c1_def c0_def)
  have "n = ((a1 * 64 + (a0 * 16 + b1)) * 64 + (b0 * 4 + c1)) * 64 + c0"
    by (simp add: n_def a1_def a0_def b1_def b0_def c1_def c0_def)
  also have "\<dots> = (a1 * 4 + a0) * 65536 + (b1 * 16 + b0) * 256 + (c1 * 64 + c0)"
    by (simp add: algebra_simps)
  finally have n: "n = a * 65536 + (b * 256 + c)"
    by (simp add: a [symmetric] b [symmetric] c [symmetric])
  have r: "b * 256 + c < 65536" using assms(2,3) by linarith
  show "n div 65536 = a" unfolding n using r by simp
  have n': "n = (a * 256 + b) * 256 + c" unfolding n by simp
  have "n div 256 = a * 256 + b" unfolding n' using assms(3) by simp
  then show "n div 256 mod 256 = b" using assms(2) by simp
  have "((a * 256 + b) * 256 + c) mod 256 = c mod 256" by (rule mod_mult_self3)
  then show "n mod 256 = c" using assms(3) by (simp only: n' mod_less)
qed

lemma group2:
  fixes a b :: nat
  assumes "a < 256" "b < 256"
  defines "n \<equiv> (((a div 4) * 64 + ((a mod 4) * 16 + b div 16)) * 64 + (b mod 16) * 4) div 4"
  shows "n div 256 = a" "n mod 256 = b"
proof -
  define a1 a0 b1 b0
    where "a1 = a div 4" and "a0 = a mod 4" and "b1 = b div 16" and "b0 = b mod 16"
  have a: "a = a1 * 4 + a0" and b: "b = b1 * 16 + b0"
    by (simp_all add: a1_def a0_def b1_def b0_def)
  have "(a1 * 64 + (a0 * 16 + b1)) * 64 + b0 * 4 = ((a1 * 4 + a0) * 256 + (b1 * 16 + b0)) * 4"
    by (simp add: algebra_simps)
  then have "n = ((a1 * 4 + a0) * 256 + (b1 * 16 + b0)) * 4 div 4"
    by (simp add: n_def a1_def a0_def b1_def b0_def)
  then have n: "n = a * 256 + b"
    by (simp add: a [symmetric] b [symmetric])
  show "n div 256 = a" unfolding n using assms(2) by simp
  show "n mod 256 = b" unfolding n using assms(2) by simp
qed

lemma group1:
  fixes a :: nat
  shows "((a div 4) * 64 + (a mod 4) * 16) div 16 = a"
proof -
  define a1 a0 where "a1 = a div 4" and "a0 = a mod 4"
  have a: "a = a1 * 4 + a0" by (simp add: a1_def a0_def)
  have "a1 * 64 + a0 * 16 = (a1 * 4 + a0) * 16" by (simp add: algebra_simps)
  then have "(a1 * 64 + a0 * 16) div 16 = a1 * 4 + a0" by simp
  then show ?thesis by (simp add: a1_def a0_def)
qed

lemma drop_last_eq_pad: "drop_last_eq (xs @ replicate (Suc p) CHR ''='') = xs @ replicate p CHR ''=''"
proof -
  have "xs @ replicate (Suc p) CHR ''='' = (xs @ replicate p CHR ''='') @ [CHR ''='']"
    by (simp add: replicate_append_same)
  then have "drop_last_eq (xs @ replicate (Suc p) CHR ''='')
             = drop_last_eq ((xs @ replicate p CHR ''='') @ [CHR ''=''])"
    by (rule arg_cong)
  also have "\<dots> = xs @ replicate p CHR ''=''"
    unfolding drop_last_eq_def by (simp only: last_snoc butlast_snoc) simp
  finally show ?thesis .
qed

lemma drop_last_eq_chars:
  "\<forall>s \<in> set sx. s < 64 \<Longrightarrow> drop_last_eq (map b64_char sx) = map b64_char sx"
proof (cases "sx = []")
  case True
  then show ?thesis by (simp add: drop_last_eq_def)
next
  case False
  assume "\<forall>s \<in> set sx. s < 64"
  with False have "last sx < 64" by simp
  then have "last (map b64_char sx) \<noteq> CHR ''=''"
    using False by (simp add: last_map b64_char_not_pad)
  then show ?thesis by (simp add: drop_last_eq_def)
qed

lemma strip_padding_shape:
  assumes "\<forall>s \<in> set sx. s < 64" "p \<le> 2" "(length sx + p) mod 4 = 0"
  shows "strip_padding (map b64_char sx @ replicate p CHR ''='') = map b64_char sx"
proof -
  have "drop_last_eq (drop_last_eq (map b64_char sx @ replicate p CHR ''='')) = map b64_char sx"
  proof -
    consider "p = 0" | "p = Suc 0" | "p = Suc (Suc 0)" using assms(2) by arith
    then show ?thesis
    proof cases
      case 1
      then show ?thesis using assms(1) by (simp add: drop_last_eq_chars)
    next
      case 2
      then show ?thesis
        using assms(1) drop_last_eq_pad [of "map b64_char sx" 0] by (simp add: drop_last_eq_chars)
    next
      case 3
      then show ?thesis
        using assms(1) drop_last_eq_pad [of "map b64_char sx" "Suc 0"]
          drop_last_eq_pad [of "map b64_char sx" 0] by (simp add: drop_last_eq_chars)
    qed
  qed
  then show ?thesis using assms(3) by (simp add: strip_padding_def)
qed

lemma those_values: "\<forall>s \<in> set sx. s < 64 \<Longrightarrow> those (map b64_value (map b64_char sx)) = Some sx"
  by (induction sx) (simp_all add: b64_value_char)

lemma decode_group3:
  assumes "a < 256" "b < 256" "c < 256"
  shows "b64_decode_sextets ([a div 4, (a mod 4) * 16 + b div 16, (b mod 16) * 4 + c div 64, c mod 64] @ rest)
         = a # b # c # b64_decode_sextets rest"
proof -
  from group3 [OF assms] show ?thesis
    by (simp only: b64_decode_sextets.simps append_Cons append_Nil Let_def)
qed

lemma decode_group2:
  assumes "a < 256" "b < 256"
  shows "b64_decode_sextets [a div 4, (a mod 4) * 16 + b div 16, (b mod 16) * 4] = [a, b]"
proof -
  from group2 [OF assms] show ?thesis
    by (simp only: b64_decode_sextets.simps Let_def)
qed

lemma decode_group1: "b64_decode_sextets [a div 4, (a mod 4) * 16] = [a]"
  using group1 [of a] by (simp only: b64_decode_sextets.simps)

lemma decode_sextets: "\<forall>b \<in> set bs. b < 256 \<Longrightarrow> b64_decode_sextets (sextets bs) = bs"
proof (induction bs rule: sextets.induct)
  case 1
  then show ?case by simp
next
  case (2 a)
  show ?case by (simp only: sextets.simps decode_group1)
next
  case (3 a b)
  then have "a < 256" "b < 256" by simp_all
  then show ?case by (simp only: sextets.simps decode_group2)
next
  case (4 a b c rest)
  then have "a < 256" "b < 256" "c < 256" and r: "\<forall>b \<in> set rest. b < 256" by simp_all
  from 4(1) [OF r] decode_group3 [OF \<open>a < 256\<close> \<open>b < 256\<close> \<open>c < 256\<close>, of "sextets rest"]
  show ?case by (simp only: sextets.simps)
qed

lemma filter_encode: "\<forall>b \<in> set bs. b < 256 \<Longrightarrow> filter (\<lambda>c. \<not> ascii_whitespace c) (b64_encode bs) = b64_encode bs"
proof -
  assume "\<forall>b \<in> set bs. b < 256"
  then have "\<forall>s \<in> set (sextets bs). s < 64" by (rule sextets_small)
  then have "\<forall>c \<in> set (b64_encode bs). \<not> ascii_whitespace c"
    by (auto simp: encode_shape b64_char_not_space pad_not_space)
  then show ?thesis by (simp add: filter_id_conv)
qed

lemma atob_encode: "\<forall>b \<in> set bs. b < 256 \<Longrightarrow> atob (b64_encode bs) = Inr bs"
proof -
  assume bytes: "\<forall>b \<in> set bs. b < 256"
  then have small: "\<forall>s \<in> set (sextets bs). s < 64" by (rule sextets_small)
  have "strip_padding (filter (\<lambda>c. \<not> ascii_whitespace c) (b64_encode bs)) = map b64_char (sextets bs)"
    using strip_padding_shape [OF small padding_le length_shape] filter_encode [OF bytes]
    by (simp add: encode_shape)
  then show ?thesis
    using length_sextets [of bs] those_values [OF small] decode_sextets [OF bytes]
    by (simp add: atob_def Let_def)
qed

lemma unat_bytes_small: "\<forall>b \<in> set (map unat (buffer :: 8 word list)). b < 256"
proof
  fix b assume "b \<in> set (map unat buffer)"
  then obtain w :: "8 word" where "b = unat w" by auto
  then show "b < 256" using unsigned_less [of w, where 'a = nat] by simp
qed

lemma arrayBufferToBase64_encodes: "arrayBufferToBase64 buffer = Inr (b64_encode (map unat buffer))"
proof -
  have "\<not> list_ex (\<lambda>u. 255 < u) (map unat buffer)"
    using unat_bytes_small [of buffer] by (auto simp: list_ex_iff)
  then show ?thesis by (simp add: arrayBufferToBase64_def btoa_def)
qed

lemma playBase64Audio_bytes_decodes:
  "playBase64Audio_bytes (b64_encode (map unat buffer)) = Inr buffer"
  using atob_encode [OF unat_bytes_small] by (simp add: playBase64Audio_bytes_def map_idI)

text \<open>
  C7. For every byte buffer, of any length (empty, one byte, a length that is not a multiple
  of three), \<open>arrayBufferToBase64\<close> returns a base64 text, and the bytes that
  \<^verbatim>\<open>playBase64Audio\<close> builds from that text are the buffer again.
\<close>

theorem base64_round_trip:
  "\<exists>s. arrayBufferToBase64 buffer = Inr s \<and> playBase64Audio_bytes s = Inr buffer"
  using arrayBufferToBase64_encodes [of buffer] playBase64Audio_bytes_decodes [of buffer]
  by blast

theorem base64_round_trip_witness:
  "(\<exists>s. arrayBufferToBase64 [] = Inr s \<and> playBase64Audio_bytes s = Inr [])
   \<and> (\<exists>s. arrayBufferToBase64 [255] = Inr s \<and> playBase64Audio_bytes s = Inr [255])
   \<and> (\<exists>s. arrayBufferToBase64 [77, 97] = Inr s \<and> playBase64Audio_bytes s = Inr [77, 97])
   \<and> (\<exists>s. arrayBufferToBase64 [0, 128, 255, 7] = Inr s
          \<and> playBase64Audio_bytes s = Inr [0, 128, 255, 7])"
  using base64_round_trip [of "[]"] base64_round_trip [of "[255]"]
    base64_round_trip [of "[77, 97]"] base64_round_trip [of "[0, 128, 255, 7]"]
  by blast

section \<open>Effects of the client's methods\<close>

lemma emitted_append [simp]: "emitted (xs @ ys) = emitted xs @ emitted ys"
  by (induction xs rule: emitted.induct) simp_all

lemma scheduled_append [simp]: "scheduled (xs @ ys) = scheduled xs @ scheduled ys"
  by (induction xs rule: scheduled.induct) simp_all

lemma written_append [simp]: "written (xs @ ys) = written xs @ written ys"
  by (induction xs rule: written.induct) simp_all

lemma attempted_append [simp]: "attempted (xs @ ys) = attempted xs @ attempted ys"
  by (induction xs rule: attempted.induct) simp_all

lemma logged_append [simp]: "logged (xs @ ys) = logged xs @ logged ys"
  by (induction xs rule: logged.induct) simp_all

lemmas platform_defs = logError_def setTimeout_def clearTimeout_def new_WebSocket_def
  set_readyState_def ws_send_def ws_close_def

lemmas control_defs = and_then_def uncaught_def state_of_def

text \<open>Only the event named \<^verbatim>\<open>error\<close> can make \<^verbatim>\<open>emit\<close> throw.\<close>

lemma emit_returns:
  "name \<noteq> JStr ''error'' \<or> 0 < errorListeners c \<Longrightarrow>
   emit name args c = Inr (c\<lparr>effects := effects c @ [Emit name args]\<rparr>)"
  by (auto simp add: emit_def)

lemma emit_throws:
  "errorListeners c = 0 \<Longrightarrow> emit (JStr ''error'') args c = Inl (UnhandledError, c)"
  by (simp add: emit_def)

lemma emit_frame:
  "reconnectAttempts (state_of (emit name args c)) = reconnectAttempts c"
  "maxReconnectAttempts (state_of (emit name args c)) = maxReconnectAttempts c"
  "scheduled (effects (state_of (emit name args c))) = scheduled (effects c)"
  "attempted (effects (state_of (emit name args c))) = attempted (effects c)"
  by (simp_all add: emit_def state_of_def)

text \<open>\<^verbatim>\<open>disconnect()\<close> clears the timer it knows of first and closes the socket second.\<close>

lemma disconnect_effects:
  "effects (disconnect c) = effects c
     @ (case reconnectTimer c of None \<Rightarrow> [] | Some h \<Rightarrow> [ClearTimeout h])
     @ (case ws c of None \<Rightarrow> [] | Some a \<Rightarrow> [WsClose a 1000 ''Client disconnect''])"
  by (simp add: disconnect_def platform_defs Let_def split: option.splits)

lemma disconnect_fields:
  "ws (disconnect c) = None"
  "isConnected (disconnect c) = False"
  "sessionId (disconnect c) = JNull"
  "reconnectTimer (disconnect c) = None"
  "reconnectAttempts (disconnect c) = reconnectAttempts c"
  "maxReconnectAttempts (disconnect c) = maxReconnectAttempts c"
  "errorListeners (disconnect c) = errorListeners c"
  "timers (disconnect c) =
     (case reconnectTimer c of None \<Rightarrow> timers c
      | Some h \<Rightarrow> filter (\<lambda>t. fst t \<noteq> h) (timers c))"
  by (simp_all add: disconnect_def platform_defs Let_def split: option.splits)

lemma scheduleReconnect_effects:
  "effects (scheduleReconnect c) = effects c
     @ [SetTimeout (timerCount c + 1) (min (reconnectDelay c * 2 ^ reconnectAttempts c) 30000)]"
  by (simp add: scheduleReconnect_def platform_defs Let_def)

lemma scheduleReconnect_fields:
  "reconnectAttempts (scheduleReconnect c) = reconnectAttempts c + 1"
  "maxReconnectAttempts (scheduleReconnect c) = maxReconnectAttempts c"
  "reconnectDelay (scheduleReconnect c) = reconnectDelay c"
  "reconnectTimer (scheduleReconnect c) = Some (timerCount c + 1)"
  by (simp_all add: scheduleReconnect_def platform_defs Let_def)

text \<open>Handling a message never touches the reconnection counters, timers or sockets created.\<close>

lemma handleError_frame:
  "reconnectAttempts (state_of (handleError data c)) = reconnectAttempts c"
  "maxReconnectAttempts (state_of (handleError data c)) = maxReconnectAttempts c"
  "scheduled (effects (state_of (handleError data c))) = scheduled (effects c)"
  "attempted (effects (state_of (handleError data c))) = attempted (effects c)"
  by (simp_all add: handleError_def Let_def emit_def control_defs disconnect_effects
      disconnect_fields logError_def split: option.splits)

lemma dispatch_frame:
  "reconnectAttempts (state_of (dispatch t data c)) = reconnectAttempts c"
  "maxReconnectAttempts (state_of (dispatch t data c)) = maxReconnectAttempts c"
  "scheduled (effects (state_of (dispatch t data c))) = scheduled (effects c)"
  "attempted (effects (state_of (dispatch t data c))) = attempted (effects c)"
  by (simp_all add: dispatch_def handleError_frame emit_frame)

lemma handleMessage_frame:
  "reconnectAttempts (state_of (handleMessage data c)) = reconnectAttempts c"
  "maxReconnectAttempts (state_of (handleMessage data c)) = maxReconnectAttempts c"
  "scheduled (effects (state_of (handleMessage data c))) = scheduled (effects c)"
  "attempted (effects (state_of (handleMessage data c))) = attempted (effects c)"
  by (simp_all add: handleMessage_def dispatch_frame split: option.splits)
     (simp_all add: state_of_def logError_def)

lemma ws_onmessage_state:
  "ws_onmessage (Parsed data) c = state_of (handleMessage data c)
   \<or> ws_onmessage (Parsed data) c
       = logError ''Failed to parse message:'' (state_of (handleMessage data c))"
  by (cases "handleMessage data c") (auto simp add: ws_onmessage_def state_of_def)

lemma ws_onmessage_frame:
  "reconnectAttempts (ws_onmessage m c) = reconnectAttempts c"
  "maxReconnectAttempts (ws_onmessage m c) = maxReconnectAttempts c"
  "scheduled (effects (ws_onmessage m c)) = scheduled (effects c)"
  "attempted (effects (ws_onmessage m c)) = attempted (effects c)"
proof -
  show "reconnectAttempts (ws_onmessage m c) = reconnectAttempts c"
  proof (cases m)
    case Malformed
    then show ?thesis by (simp add: ws_onmessage_def logError_def)
  next
    case (Parsed data)
    with ws_onmessage_state [of data c] handleMessage_frame(1) [of data c]
    show ?thesis by (auto simp add: logError_def)
  qed
  show "maxReconnectAttempts (ws_onmessage m c) = maxReconnectAttempts c"
  proof (cases m)
    case Malformed
    then show ?thesis by (simp add: ws_onmessage_def logError_def)
  next
    case (Parsed data)
    with ws_onmessage_state [of data c] handleMessage_frame(2) [of data c]
    show ?thesis by (auto simp add: logError_def)
  qed
  show "scheduled (effects (ws_onmessage m c)) = scheduled (effects c)"
  proof (cases m)
    case Malformed
    then show ?thesis by (simp add: ws_onmessage_def logError_def)
  next
    case (Parsed data)
    with ws_onmessage_state [of data c] handleMessage_frame(3) [of data c]
    show ?thesis by (auto simp add: logError_def)
  qed
  show "attempted (effects (ws_onmessage m c)) = attempted (effects c)"
  proof (cases m)
    case Malformed
    then show ?thesis by (simp add: ws_onmessage_def logError_def)
  next
    case (Parsed data)
    with ws_onmessage_state [of data c] handleMessage_frame(4) [of data c]
    show ?thesis by (auto simp add: logError_def)
  qed
qed

section \<open>Reconnection\<close>

lemma ws_onclose_schedules:
  assumes "code \<noteq> 1000" "code \<noteq> 1008" "\<not> str_includes reason ''auth''"
    and "reconnectAttempts c < maxReconnectAttempts c"
  shows "scheduled (effects (ws_onclose code reason c))
           = scheduled (effects c) @ [min (reconnectDelay c * 2 ^ reconnectAttempts c) 30000]"
    and "reconnectAttempts (ws_onclose code reason c) = reconnectAttempts c + 1"
  using assms
  by (simp_all add: ws_onclose_def emit_def control_defs scheduleReconnect_effects
      scheduleReconnect_fields)

lemma ws_onclose_gives_up:
  assumes "code = 1000 \<or> code = 1008 \<or> str_includes reason ''auth''
           \<or> \<not> reconnectAttempts c < maxReconnectAttempts c"
  shows "scheduled (effects (ws_onclose code reason c)) = scheduled (effects c)"
    and "reconnectAttempts (ws_onclose code reason c) = reconnectAttempts c"
  using assms
  by (auto simp add: ws_onclose_def emit_def control_defs scheduleReconnect_effects
      scheduleReconnect_fields)

lemma ws_onclose_max: "maxReconnectAttempts (ws_onclose code reason c) = maxReconnectAttempts c"
  by (simp add: ws_onclose_def emit_def control_defs scheduleReconnect_fields)

lemma ws_onopen_resets: "reconnectAttempts (ws_onopen c) = 0"
  by (simp add: ws_onopen_def Let_def emit_def control_defs sendAuthMessage_def send_def
      logError_def ws_send_def split: option.splits)

lemma ws_onclose_budget: "budget (ws_onclose code reason c) \<le> budget c"
proof (cases "code \<noteq> 1000 \<and> code \<noteq> 1008 \<and> \<not> str_includes reason ''auth''
              \<and> reconnectAttempts c < maxReconnectAttempts c")
  case True
  then have "length (scheduled (effects (ws_onclose code reason c)))
               = length (scheduled (effects c)) + 1"
    and "reconnectAttempts (ws_onclose code reason c) = reconnectAttempts c + 1"
    using ws_onclose_schedules [of code reason c] by simp_all
  with True show ?thesis unfolding budget_def ws_onclose_max by linarith
next
  case False
  then have "code = 1000 \<or> code = 1008 \<or> str_includes reason ''auth''
           \<or> \<not> reconnectAttempts c < maxReconnectAttempts c" by blast
  from ws_onclose_gives_up [OF this] show ?thesis by (simp add: budget_def ws_onclose_max)
qed

lemma budget_set_readyState [simp]: "budget (set_readyState a s c) = budget c"
  by (simp add: budget_def set_readyState_def)

lemma step_budget: "\<not> is_open e \<Longrightarrow> budget (step e c) \<le> budget c"
proof (cases e)
  case (SocketClose a code reason)
  then show ?thesis using ws_onclose_budget [of code reason "set_readyState a CLOSED c"] by simp
next
  case (SocketMessage a m)
  then show ?thesis by (simp add: budget_def ws_onmessage_frame)
next
  case (SocketError a err)
  then show ?thesis
    by (simp add: budget_def ws_onerror_def emit_def control_defs logError_def)
next
  case (TimerFires h)
  then show ?thesis by (simp add: budget_def connect_def new_WebSocket_def Let_def)
next
  case CallConnect
  then show ?thesis by (simp add: budget_def connect_def new_WebSocket_def Let_def)
next
  case CallDisconnect
  then show ?thesis
    by (simp add: budget_def disconnect_effects disconnect_fields split: option.splits)
qed simp

lemma run_budget: "list_all (\<lambda>e. \<not> is_open e) evs \<Longrightarrow> budget (run evs c) \<le> budget c"
proof (induction evs arbitrary: c)
  case Nil
  then show ?case by (simp add: run_def)
next
  case (Cons e evs)
  then have "budget (run evs (step e c)) \<le> budget (step e c)" by simp
  moreover have "budget (step e c) \<le> budget c" using Cons.prems by (simp add: step_budget)
  ultimately show ?case by (simp add: run_def)
qed

lemma three_closes:
  "scheduled (effects (run [CallConnect, SocketOpen 0, SocketClose 0 1006 [], TimerFires 1,
      SocketClose 1 1006 [], TimerFires 2, SocketClose 2 1006 []] (new_client config)))
   = [1000, 2000, 4000]"
  by (simp add: run_def new_client_def connect_def ws_onopen_def ws_onclose_def emit_def
      control_defs sendAuthMessage_def send_def scheduleReconnect_def platform_defs Let_def)

lemma open_after_closes:
  "reconnectAttempts (run [CallConnect, SocketOpen 0, SocketClose 0 1006 [], TimerFires 1,
      SocketClose 1 1006 [], TimerFires 2, SocketClose 2 1006 [], TimerFires 3, SocketOpen 3]
      (new_client config)) = 0
   \<and> reconnectAttempts (run [CallConnect, SocketOpen 0, SocketClose 0 1006 [], TimerFires 1,
      SocketClose 1 1006 [], TimerFires 2, SocketClose 2 1006 []] (new_client config)) = 3"
  by (simp add: run_def new_client_def connect_def ws_onopen_def ws_onclose_def emit_def
      control_defs sendAuthMessage_def send_def scheduleReconnect_def platform_defs Let_def)

text \<open>
  C1, as amended. When a socket closes with a code other than 1000, and the close is not an
  authentication failure (code 1008, or a reason that contains "auth"), while fewer than
  \<open>maxReconnectAttempts\<close> attempts have been made, \<^verbatim>\<open>onclose\<close> counts one more attempt and
  sets one timer, with delay \<open>reconnectDelay * 2 ^ (attempt - 1)\<close> capped at 30000 ms. A close
  that is an authentication failure sets no timer and counts no attempt; once the attempts
  are used up no close sets a timer; and in a run in which no socket opens at most
  \<open>maxReconnectAttempts - reconnectAttempts\<close> timers are set. A new client has base delay
  1000 ms and 5 attempts; three abnormal closes in a row set timers of 1000, 2000 and 4000 ms;
  and \<^verbatim>\<open>onopen\<close> sets the attempt counter back to zero.
\<close>

theorem reconnect_backoff:
  "(code \<noteq> 1000 \<and> code \<noteq> 1008 \<and> \<not> str_includes reason ''auth''
      \<and> reconnectAttempts c < maxReconnectAttempts c \<longrightarrow>
        scheduled (effects (ws_onclose code reason c))
          = scheduled (effects c)
            @ [min (reconnectDelay c * 2 ^ (reconnectAttempts (ws_onclose code reason c) - 1))
                   30000]
        \<and> reconnectAttempts (ws_onclose code reason c) = reconnectAttempts c + 1)
   \<and> (code = 1008 \<or> str_includes reason ''auth'' \<longrightarrow>
        scheduled (effects (ws_onclose code reason c)) = scheduled (effects c)
        \<and> reconnectAttempts (ws_onclose code reason c) = reconnectAttempts c)
   \<and> (\<not> reconnectAttempts c < maxReconnectAttempts c \<longrightarrow>
        scheduled (effects (ws_onclose code reason c)) = scheduled (effects c))
   \<and> (list_all (\<lambda>e. \<not> is_open e) evs \<longrightarrow>
        length (scheduled (effects (run evs c)))
          \<le> length (scheduled (effects c)) + (maxReconnectAttempts c - reconnectAttempts c))
   \<and> reconnectDelay (new_client config) = 1000
   \<and> maxReconnectAttempts (new_client config) = 5
   \<and> scheduled (effects (run [CallConnect, SocketOpen 0, SocketClose 0 1006 [], TimerFires 1,
        SocketClose 1 1006 [], TimerFires 2, SocketClose 2 1006 []] (new_client config)))
      = [1000, 2000, 4000]
   \<and> reconnectAttempts (run [CallConnect, SocketOpen 0, SocketClose 0 1006 [], TimerFires 1,
        SocketClose 1 1006 [], TimerFires 2, SocketClose 2 1006 [], TimerFires 3, SocketOpen 3]
        (new_client config)) = 0
   \<and> reconnectAttempts (ws_onopen c) = 0"
proof -
  have a: "code \<noteq> 1000 \<and> code \<noteq> 1008 \<and> \<not> str_includes reason ''auth''
      \<and> reconnectAttempts c < maxReconnectAttempts c \<longrightarrow>
        scheduled (effects (ws_onclose code reason c))
          = scheduled (effects c)
            @ [min (reconnectDelay c * 2 ^ (reconnectAttempts (ws_onclose code reason c) - 1))
                   30000]
        \<and> reconnectAttempts (ws_onclose code reason c) = reconnectAttempts c + 1"
    using ws_onclose_schedules [of code reason c] by simp
  have b: "code = 1008 \<or> str_includes reason ''auth'' \<longrightarrow>
        scheduled (effects (ws_onclose code reason c)) = scheduled (effects c)
        \<and> reconnectAttempts (ws_onclose code reason c) = reconnectAttempts c"
    using ws_onclose_gives_up [of code reason c] by blast
  have d: "\<not> reconnectAttempts c < maxReconnectAttempts c \<longrightarrow>
        scheduled (effects (ws_onclose code reason c)) = scheduled (effects c)"
    using ws_onclose_gives_up(1) [of code reason c] by blast
  have e: "list_all (\<lambda>e. \<not> is_open e) evs \<longrightarrow>
        length (scheduled (effects (run evs c)))
          \<le> length (scheduled (effects c)) + (maxReconnectAttempts c - reconnectAttempts c)"
  proof
    assume "list_all (\<lambda>e. \<not> is_open e) evs"
    then have "budget (run evs c) \<le> budget c" by (rule run_budget)
    then show "length (scheduled (effects (run evs c)))
          \<le> length (scheduled (effects c)) + (maxReconnectAttempts c - reconnectAttempts c)"
      unfolding budget_def by linarith
  qed
  have f: "reconnectDelay (new_client config) = 1000"
    and g: "maxReconnectAttempts (new_client config) = 5"
    by (simp_all add: new_client_def)
  note h = three_closes [of config]
  note i = open_after_closes [of config, THEN conjunct1]
  note j = ws_onopen_resets [of c]
  show ?thesis by (intro conjI a b d e f g h i j)
qed

theorem reconnect_backoff_witness:
  "scheduled (effects (ws_onclose 1006 [] (new_client example_config))) = [1000]
   \<and> reconnectAttempts (ws_onclose 1006 [] (new_client example_config)) = 1
   \<and> scheduled (effects (ws_onclose 1006 []
        ((new_client example_config)\<lparr>reconnectAttempts := 5\<rparr>))) = []
   \<and> length (scheduled (effects (run [CallConnect, SocketClose 0 1006 [], TimerFires 1,
        SocketClose 1 1006 [], TimerFires 2, SocketClose 2 1006 [], TimerFires 3,
        SocketClose 3 1006 [], TimerFires 4, SocketClose 4 1006 [], TimerFires 5,
        SocketClose 5 1006 [], TimerFires 6, SocketClose 6 1006 []]
        (new_client example_config)))) \<le> 5"
  using reconnect_backoff [of 1006 "[]" "new_client example_config"
      "[CallConnect, SocketClose 0 1006 [], TimerFires 1,
        SocketClose 1 1006 [], TimerFires 2, SocketClose 2 1006 [], TimerFires 3,
        SocketClose 3 1006 [], TimerFires 4, SocketClose 4 1006 [], TimerFires 5,
        SocketClose 5 1006 [], TimerFires 6, SocketClose 6 1006 []]" example_config]
    reconnect_backoff [of 1006 "[]" "(new_client example_config)\<lparr>reconnectAttempts := 5\<rparr>"
      "[]" example_config]
  by (simp add: new_client_def)

text \<open>
  C1 as it is stated fails: a close with code 1008, or with code 1011 and a reason that
  contains "auth", is abnormal and comes while all five attempts are left, and no timer is
  set (with or without a listener for the \<^verbatim>\<open>error\<close> event that the close emits).
\<close>

theorem reconnect_backoff_counterexample:
  "reconnectAttempts (new_client example_config) < maxReconnectAttempts (new_client example_config)
   \<and> scheduled (effects (run [CallConnect, SocketOpen 0, SocketClose 0 1008 ''Policy violation'']
         (add_listener (JStr ''error'') (new_client example_config)))) = []
   \<and> timers (run [CallConnect, SocketOpen 0, SocketClose 0 1008 ''Policy violation'']
         (add_listener (JStr ''error'') (new_client example_config))) = []
   \<and> scheduled (effects (run [CallConnect, SocketOpen 0,
           SocketClose 0 1011 ''upstream authentication service unavailable'']
         (add_listener (JStr ''error'') (new_client example_config)))) = []
   \<and> scheduled (effects (run [CallConnect, SocketOpen 0, SocketClose 0 1008 ''Policy violation'']
         (new_client example_config))) = []"
  by (simp add: run_def new_client_def add_listener_def connect_def ws_onopen_def ws_onclose_def
      emit_def control_defs sendAuthMessage_def send_def platform_defs Let_def)

section \<open>Authentication failure\<close>

text \<open>The default model name needs no escaping.\<close>

lemma urlencode_default:
  "urlencode ''gpt-4o-realtime-preview-2024-10-01'' = ''gpt-4o-realtime-preview-2024-10-01''"
  by (simp add: url_unreserved_def)

lemma handleError_auth:
  assumes "opt_prop (opt_prop data ''error'') ''code'' = JStr ''invalid_api_key''"
    and "0 < errorListeners c"
  shows "handleError data c =
           Inr (disconnect
                  (c\<lparr>effects := effects c
                       @ [ConsoleError ''API Error:'',
                          Emit (fst (auth_error_event (opt_prop data ''error'')))
                               (snd (auth_error_event (opt_prop data ''error'')))]\<rparr>))"
proof -
  have "truthy (opt_prop data ''error'')"
    using assms(1) by (cases "opt_prop data ''error''") (simp_all add: opt_prop_def)
  then show ?thesis using assms
    by (simp add: handleError_def Let_def js_or_def auth_error_event_def emit_def and_then_def
        logError_def)
qed

lemma handleError_auth_unheard:
  assumes "opt_prop (opt_prop data ''error'') ''code'' = JStr ''invalid_api_key''"
    and "errorListeners c = 0"
  shows "handleError data c = Inl (UnhandledError, logError ''API Error:'' c)"
proof -
  have "truthy (opt_prop data ''error'')"
    using assms(1) by (cases "opt_prop data ''error''") (simp_all add: opt_prop_def)
  then show ?thesis using assms
    by (simp add: handleError_def Let_def js_or_def emit_def and_then_def logError_def)
qed

text \<open>
  What holds of the claim: while a listener for \<^verbatim>\<open>error\<close> is registered, the frame makes the
  client emit the authentication error, clear the timer it holds, close its socket with code
  1000 and end disconnected, and handling the frame sets no timer.
\<close>

lemma auth_failure_teardown:
  fixes c :: client and data :: jsval
  assumes "get_prop data ''type'' = Some (JStr ''error'')"
    and "opt_prop (opt_prop data ''error'') ''code'' = JStr ''invalid_api_key''"
    and "0 < errorListeners c"
  defines "c' \<equiv> ws_onmessage (Parsed data) c"
  shows "effects c' = effects c
            @ [ConsoleError ''API Error:'',
               Emit (fst (auth_error_event (opt_prop data ''error'')))
                    (snd (auth_error_event (opt_prop data ''error'')))]
            @ (case reconnectTimer c of None \<Rightarrow> [] | Some h \<Rightarrow> [ClearTimeout h])
            @ (case ws c of None \<Rightarrow> [] | Some a \<Rightarrow> [WsClose a 1000 ''Client disconnect''])
       \<and> ws c' = None \<and> isConnected c' = False \<and> sessionId c' = JNull
       \<and> reconnectTimer c' = None
       \<and> scheduled (effects c') = scheduled (effects c)"
proof -
  have "handleMessage data c = handleError data c"
    using assms(1) by (simp add: handleMessage_def dispatch_def)
  then have c': "c' = disconnect
                  (c\<lparr>effects := effects c
                       @ [ConsoleError ''API Error:'',
                          Emit (fst (auth_error_event (opt_prop data ''error'')))
                               (snd (auth_error_event (opt_prop data ''error'')))]\<rparr>)"
    using handleError_auth [OF assms(2,3)] by (simp add: c'_def ws_onmessage_def)
  show ?thesis
    unfolding c' by (simp add: disconnect_effects disconnect_fields split: option.splits)
qed

text \<open>
  C2, on two runs of a new client that connects, opens and then receives the frame
  \<^verbatim>\<open>{type: "error", error: {code: "invalid_api_key"}}\<close>. In the first run no listener is
  registered for \<^verbatim>\<open>error\<close>: \<^verbatim>\<open>emit\<close> throws, \<^verbatim>\<open>disconnect()\<close> is never reached, the catch
  of \<^verbatim>\<open>onmessage\<close> logs the exception, and the client keeps its socket and stays connected,
  with no authentication error emitted. In the second run a listener is registered: the
  error is emitted and the client disconnects, but the close event of the dropped socket
  arrives with code 1006, \<^verbatim>\<open>onclose\<close> sets a timer, and when it fires the client connects
  again.
\<close>

theorem auth_failure_not_terminal:
  "ws (run [CallConnect, SocketOpen 0, SocketMessage 0 (Parsed invalid_api_key_frame)]
         (new_client example_config)) = Some 0
   \<and> isConnected (run [CallConnect, SocketOpen 0, SocketMessage 0 (Parsed invalid_api_key_frame)]
         (new_client example_config)) = True
   \<and> logged (effects (run [CallConnect, SocketOpen 0,
           SocketMessage 0 (Parsed invalid_api_key_frame)] (new_client example_config)))
       = [''API Error:'', ''Failed to parse message:'']
   \<and> emitted (effects (run [CallConnect, SocketOpen 0,
           SocketMessage 0 (Parsed invalid_api_key_frame)] (new_client example_config)))
       = [(JStr ''connected'', [])]
   \<and> emitted (effects (run [CallConnect, SocketOpen 0,
           SocketMessage 0 (Parsed invalid_api_key_frame)]
         (add_listener (JStr ''error'') (new_client example_config))))
       = [(JStr ''connected'', []), auth_error_event (JObj [(''code'', JStr ''invalid_api_key'')])]
   \<and> ws (run [CallConnect, SocketOpen 0, SocketMessage 0 (Parsed invalid_api_key_frame)]
         (add_listener (JStr ''error'') (new_client example_config))) = None
   \<and> scheduled (effects (run [CallConnect, SocketOpen 0,
           SocketMessage 0 (Parsed invalid_api_key_frame), SocketClose 0 1006 []]
         (add_listener (JStr ''error'') (new_client example_config)))) = [1000]
   \<and> attempted (effects (run [CallConnect, SocketOpen 0,
           SocketMessage 0 (Parsed invalid_api_key_frame), SocketClose 0 1006 [], TimerFires 1]
         (add_listener (JStr ''error'') (new_client example_config)))) = [0, 1]"
  by (simp add: run_def new_client_def example_config_def add_listener_def
      invalid_api_key_frame_def auth_error_event_def connect_def ws_onopen_def ws_onmessage_def
      handleMessage_def dispatch_def handleError_def disconnect_def ws_onclose_def emit_def
      control_defs opt_prop_def js_or_def sendAuthMessage_def send_def scheduleReconnect_def
      platform_defs Let_def urlencode_default del: urlencode.simps)

section \<open>Disconnecting\<close>


text \<open>
  C9. After \<^verbatim>\<open>disconnect()\<close>, whatever the state before, \<^verbatim>\<open>getConnectionStatus()\<close> is
  false and \<^verbatim>\<open>getSessionId()\<close> is null.
\<close>

theorem disconnect_resets_state:
  "getConnectionStatus (disconnect c) = False \<and> getSessionId (disconnect c) = JNull"
  by (simp add: getConnectionStatus_def getSessionId_def disconnect_fields)

theorem disconnect_resets_state_witness:
  "getConnectionStatus
     ((new_client example_config)\<lparr>isConnected := True, sessionId := JStr ''sess_abc''\<rparr>) = True
   \<and> getSessionId
     ((new_client example_config)\<lparr>isConnected := True, sessionId := JStr ''sess_abc''\<rparr>)
     = JStr ''sess_abc''
   \<and> getConnectionStatus (disconnect
     ((new_client example_config)\<lparr>isConnected := True, sessionId := JStr ''sess_abc''\<rparr>)) = False
   \<and> getSessionId (disconnect
     ((new_client example_config)\<lparr>isConnected := True, sessionId := JStr ''sess_abc''\<rparr>)) = JNull"
  using disconnect_resets_state
    [of "(new_client example_config)\<lparr>isConnected := True, sessionId := JStr ''sess_abc''\<rparr>"]
  by (simp add: getConnectionStatus_def getSessionId_def)

text \<open>
  C5, on two runs of a new client. In both, \<^verbatim>\<open>disconnect()\<close> clears the timer it holds
  before it closes the socket and leaves the client with no socket, and a connection attempt
  is made after it all the same. In the first run the client disconnects while its socket is
  still connecting; the socket's close event then arrives with code 1006, \<^verbatim>\<open>onclose\<close> sets a
  new timer, and the timer fires. In the second the application called \<^verbatim>\<open>connect()\<close> while a
  reconnection timer was pending: a later \<^verbatim>\<open>scheduleReconnect\<close> overwrote the handle, so
  \<^verbatim>\<open>disconnect()\<close> clears timer 2 only, and timer 1 fires afterwards.
\<close>

theorem reconnect_after_disconnect:
  "effects (run [CallConnect, CallDisconnect] (new_client example_config))
     = [WsNew 0 ''wss://api.openai.com/v1/realtime?model=gpt-4o-realtime-preview-2024-10-01'',
        WsClose 0 1000 ''Client disconnect'']
   \<and> ws (run [CallConnect, CallDisconnect] (new_client example_config)) = None
   \<and> timers (run [CallConnect, CallDisconnect] (new_client example_config)) = []
   \<and> attempted (effects (run [CallConnect, CallDisconnect, SocketClose 0 1006 [], TimerFires 1]
        (new_client example_config))) = [0, 1]
   \<and> timers (run [CallConnect, SocketOpen 0, SocketClose 0 1006 [], CallConnect, SocketOpen 1,
        SocketClose 1 1006 [], CallDisconnect] (new_client example_config)) = [(1, 1000)]
   \<and> attempted (effects (run [CallConnect, SocketOpen 0, SocketClose 0 1006 [], CallConnect,
        SocketOpen 1, SocketClose 1 1006 [], CallDisconnect, TimerFires 1]
        (new_client example_config))) = [0, 1, 2]"
  by (simp add: run_def new_client_def example_config_def connect_def urlencode_default
      disconnect_def ws_onopen_def ws_onclose_def emit_def control_defs sendAuthMessage_def
      send_def scheduleReconnect_def platform_defs Let_def del: urlencode.simps)

section \<open>Inbound frames\<close>

text \<open>
  C6. After the frame \<^verbatim>\<open>{type: "session.created", session: {id: "sess_abc"}}\<close> has been
  handled, \<^verbatim>\<open>getSessionId()\<close> returns \<^verbatim>\<open>"sess_abc"\<close>; for every frame of type
  \<^verbatim>\<open>session.created\<close> it returns what the frame holds at \<^verbatim>\<open>session?.id\<close>.
\<close>

theorem session_id_capture:
  "getSessionId (ws_onmessage (Parsed (JObj [(''type'', JStr ''session.created''),
       (''session'', JObj [(''id'', JStr ''sess_abc'')])])) c) = JStr ''sess_abc''
   \<and> (get_prop data ''type'' = Some (JStr ''session.created'') \<longrightarrow>
        getSessionId (ws_onmessage (Parsed data) c) = opt_prop (opt_prop data ''session'') ''id'')"
  by (simp add: getSessionId_def ws_onmessage_def handleMessage_def dispatch_def emit_def
      opt_prop_def)

theorem session_id_capture_witness:
  "getSessionId (new_client example_config) = JNull
   \<and> getSessionId (ws_onmessage
        (Parsed (JObj [(''type'', JStr ''session.created''),
                       (''session'', JObj [(''id'', JStr ''sess_9'')]), (''event_id'', JNum 1)]))
        (new_client example_config)) = JStr ''sess_9''"
proof -
  let ?d = "JObj [(''type'', JStr ''session.created''),
                  (''session'', JObj [(''id'', JStr ''sess_9'')]), (''event_id'', JNum 1)]"
  have "get_prop ?d ''type'' = Some (JStr ''session.created'')" by simp
  with session_id_capture [of "new_client example_config" ?d]
  have "getSessionId (ws_onmessage (Parsed ?d) (new_client example_config))
          = opt_prop (opt_prop ?d ''session'') ''id''" by blast
  then show ?thesis by (simp add: opt_prop_def getSessionId_def new_client_def)
qed

lemma ws_onmessage_untyped:
  assumes "untyped data"
  shows "ws_onmessage (Parsed data) c = logError ''Failed to parse message:'' c
       \<or> ws_onmessage (Parsed data) c = logError ''Received message without type:'' c"
proof (cases "get_prop data ''type''")
  case None
  then show ?thesis by (simp add: ws_onmessage_def handleMessage_def)
next
  case (Some t)
  with assms have "\<not> truthy t" by (simp add: untyped_def)
  with Some show ?thesis by (simp add: ws_onmessage_def handleMessage_def)
qed

lemma handleMessage_untyped:
  assumes "untyped data"
  shows "handleMessage data c = Inl (TypeError, c)
       \<or> handleMessage data c = Inr (logError ''Received message without type:'' c)"
proof (cases "get_prop data ''type''")
  case None
  then show ?thesis by (simp add: handleMessage_def)
next
  case (Some t)
  with assms have "\<not> truthy t" by (simp add: untyped_def)
  with Some show ?thesis by (simp add: handleMessage_def)
qed

text \<open>
  C8. A frame that parses but has no usable type (the value is null, or \<^verbatim>\<open>type\<close> is missing
  or falsy) makes the client emit nothing: \<^verbatim>\<open>handleMessage\<close> either throws before it does
  anything or only writes a line with \<^verbatim>\<open>console.error\<close>, and after \<^verbatim>\<open>onmessage\<close> the
  client differs from before by one such line only, so its socket is as it was and the
  connection stays open.
\<close>

theorem untyped_frame_dropped:
  assumes "untyped data"
  shows "emitted (effects (ws_onmessage (Parsed data) c)) = emitted (effects c)
       \<and> (\<exists>msg. ws_onmessage (Parsed data) c = c\<lparr>effects := effects c @ [ConsoleError msg]\<rparr>)
       \<and> (case handleMessage data c of
             Inl e \<Rightarrow> True
           | Inr c' \<Rightarrow>
               c' = c\<lparr>effects := effects c @ [ConsoleError ''Received message without type:'']\<rparr>)
       \<and> ws (ws_onmessage (Parsed data) c) = ws c
       \<and> sockets (ws_onmessage (Parsed data) c) = sockets c
       \<and> isConnected (ws_onmessage (Parsed data) c) = isConnected c
       \<and> written (effects (ws_onmessage (Parsed data) c)) = written (effects c)"
proof -
  from ws_onmessage_untyped [OF assms, of c]
  obtain msg where m: "ws_onmessage (Parsed data) c = logError msg c" by blast
  have "\<exists>msg. ws_onmessage (Parsed data) c = c\<lparr>effects := effects c @ [ConsoleError msg]\<rparr>"
    using m unfolding logError_def by (rule exI)
  moreover have "case handleMessage data c of
             Inl e \<Rightarrow> True
           | Inr c' \<Rightarrow>
               c' = c\<lparr>effects := effects c @ [ConsoleError ''Received message without type:'']\<rparr>"
    using handleMessage_untyped [OF assms, of c] by (auto simp: logError_def)
  ultimately show ?thesis unfolding m by (simp add: logError_def)
qed

theorem untyped_frame_dropped_witness:
  "effects (ws_onmessage (Parsed (JObj [(''session'', JObj [(''id'', JStr ''sess_abc'')])]))
      ((new_client example_config)
         \<lparr>ws := Some 0, isConnected := True,
          sockets := [\<lparr>url = ''wss://api.openai.com/v1/realtime'', readyState = OPEN\<rparr>]\<rparr>))
   = [ConsoleError ''Received message without type:'']
   \<and> emitted (effects (ws_onmessage (Parsed (JObj [(''type'', JStr [])]))
        (new_client example_config))) = []
   \<and> emitted (effects (ws_onmessage (Parsed JNull) (new_client example_config))) = []"
proof -
  have u: "untyped (JObj [(''session'', JObj [(''id'', JStr ''sess_abc'')])])"
    "untyped (JObj [(''type'', JStr [])])" "untyped JNull"
    by (simp_all add: untyped_def)
  show ?thesis
    using untyped_frame_dropped [OF u(1)] untyped_frame_dropped [OF u(2)]
      untyped_frame_dropped [OF u(3)]
    by (simp add: new_client_def handleMessage_def ws_onmessage_def)
qed

section \<open>Subscriptions of SimpleRealtimeClient\<close>

lemma emit_simple_calls:
  "calls (emit_simple (JStr name) data c) = calls c @ map (\<lambda>h. (h, data)) (listeners c name)"
  "eventHandlers (emit_simple t data c) = eventHandlers c"
  by (simp_all add: emit_simple_def listeners_def split: option.splits jsval.splits)

lemma listeners_emit_simple [simp]: "listeners (emit_simple t data c) name = listeners c name"
  by (simp add: listeners_def emit_simple_calls)

lemma dispatch_unknown_name:
  "name \<notin> set known_event_types \<Longrightarrow>
   dispatch (JStr name) data c = Inr (c\<lparr>effects := effects c @ [Emit (JStr name) [data]]\<rparr>)"
  by (simp add: known_event_types_def dispatch_def emit_def)

text \<open>
  C3, as amended. For every parsed frame whose type is a string: \<^verbatim>\<open>SimpleRealtimeClient\<close>
  calls the handlers registered for that type and then the handlers registered for the
  wildcard \<^verbatim>\<open>*\<close>, each with the frame; \<^verbatim>\<open>RealtimeBrowserClient\<close>, when the type is not
  empty and is none of the types it knows, emits the frame once, under its type, and does
  nothing else (it has no wildcard channel).
\<close>

theorem unknown_event_forwarding:
  "(get_prop data ''type'' = Some (JStr name) \<longrightarrow>
      calls (onmessage_simple (Parsed data) s)
        = calls s @ map (\<lambda>h. (h, data)) (listeners s name)
                  @ map (\<lambda>h. (h, data)) (listeners s ''*''))
   \<and> (get_prop data ''type'' = Some (JStr name) \<longrightarrow> name \<noteq> [] \<longrightarrow>
        name \<notin> set known_event_types \<longrightarrow>
        ws_onmessage (Parsed data) c = c\<lparr>effects := effects c @ [Emit (JStr name) [data]]\<rparr>)"
  by (auto simp add: onmessage_simple_def emit_simple_calls ws_onmessage_def handleMessage_def
      dispatch_unknown_name)

theorem unknown_event_forwarding_witness:
  "calls (onmessage_simple (Parsed (JObj [(''type'', JStr ''foo.bar'')]))
      (on_simple ''*'' 2 (on_simple ''foo.bar'' 1 new_simple_client)))
     = [(1, JObj [(''type'', JStr ''foo.bar'')]), (2, JObj [(''type'', JStr ''foo.bar'')])]
   \<and> effects (ws_onmessage (Parsed (JObj [(''type'', JStr ''foo.bar'')]))
        (new_client example_config))
     = [Emit (JStr ''foo.bar'') [JObj [(''type'', JStr ''foo.bar'')]]]"
proof -
  let ?d = "JObj [(''type'', JStr ''foo.bar'')]"
  have t: "get_prop ?d ''type'' = Some (JStr ''foo.bar'')" by simp
  have n: "''foo.bar'' \<noteq> []" "''foo.bar'' \<notin> set known_event_types"
    by (simp_all add: known_event_types_def)
  show ?thesis
    using unknown_event_forwarding
      [of ?d "''foo.bar''" "on_simple ''*'' 2 (on_simple ''foo.bar'' 1 new_simple_client)"
        "new_client example_config"] t n
    by (simp add: listeners_def on_simple_def new_simple_client_def new_client_def Let_def)
qed

text \<open>
  C3 as it is stated fails for \<^verbatim>\<open>RealtimeBrowserClient\<close>: a frame of the unknown type
  \<^verbatim>\<open>foo.bar\<close> is emitted under \<^verbatim>\<open>foo.bar\<close> and under nothing else, the wildcard included.
\<close>

theorem unknown_event_forwarding_counterexample:
  "emitted (effects (ws_onmessage (Parsed (JObj [(''type'', JStr ''foo.bar'')]))
      (new_client example_config)))
     = [(JStr ''foo.bar'', [JObj [(''type'', JStr ''foo.bar'')]])]
   \<and> (JStr ''*'', [JObj [(''type'', JStr ''foo.bar'')]])
       \<notin> set (emitted (effects (ws_onmessage (Parsed (JObj [(''type'', JStr ''foo.bar'')]))
            (new_client example_config))))"
  by (simp add: ws_onmessage_def handleMessage_def dispatch_def emit_def new_client_def)

section \<open>Commands while the connection is not open\<close>

lemma send_not_open:
  "not_open c \<Longrightarrow> send data c = logError ''Cannot send: WebSocket not connected'' c"
  by (simp add: not_open_def send_def split: option.splits)

lemma appendInputAudio_sends:
  "appendInputAudio audioData c
     = Inr (send (JObj [(''type'', JStr ''input_audio_buffer.append''),
                        (''audio'', JStr (b64_encode (map unat audioData)))]) c)"
  by (simp add: appendInputAudio_def arrayBufferToBase64_encodes)

text \<open>
  C4, as amended. For every command issued while the connection is not open (the client holds
  no socket, or its socket's state is not OPEN), \<^verbatim>\<open>appendInputAudio\<close> while disconnected
  included: nothing is written to the socket, the line
  \<^verbatim>\<open>Cannot send: WebSocket not connected\<close> is written with \<^verbatim>\<open>console.error\<close>, and the call
  returns normally; no event is emitted and nothing else changes, so the caller is told
  nothing.
\<close>

theorem command_while_closed:
  assumes "not_open c"
  defines "c' \<equiv> c\<lparr>effects := effects c @ [ConsoleError ''Cannot send: WebSocket not connected'']\<rparr>"
  shows "send data c = c' \<and> appendInputAudio audioData c = Inr c'
       \<and> updateSession session c = c' \<and> commitInputAudio c = c' \<and> clearInputAudio c = c'
       \<and> createResponse options c = c' \<and> cancelResponse c = c'
       \<and> written (effects c') = written (effects c)
       \<and> emitted (effects c') = emitted (effects c)
       \<and> logged (effects c') = logged (effects c) @ [''Cannot send: WebSocket not connected'']"
  using assms(1)
  by (simp add: c'_def appendInputAudio_sends updateSession_def commitInputAudio_def
      clearInputAudio_def createResponse_def cancelResponse_def send_not_open logError_def)

theorem command_while_closed_witness:
  "appendInputAudio [1, 2, 3] (new_client example_config)
     = Inr ((new_client example_config)
              \<lparr>effects := [ConsoleError ''Cannot send: WebSocket not connected'']\<rparr>)
   \<and> cancelResponse ((new_client example_config)
         \<lparr>ws := Some 0,
          sockets := [\<lparr>url = ''wss://api.openai.com/v1/realtime'', readyState = CONNECTING\<rparr>]\<rparr>)
     = (new_client example_config)
         \<lparr>ws := Some 0,
          sockets := [\<lparr>url = ''wss://api.openai.com/v1/realtime'', readyState = CONNECTING\<rparr>],
          effects := [ConsoleError ''Cannot send: WebSocket not connected'']\<rparr>"
proof -
  have n: "not_open (new_client example_config)"
    "not_open ((new_client example_config)
         \<lparr>ws := Some 0,
          sockets := [\<lparr>url = ''wss://api.openai.com/v1/realtime'', readyState = CONNECTING\<rparr>]\<rparr>)"
    by (simp_all add: not_open_def new_client_def)
  show ?thesis
    using command_while_closed [OF n(1), of _ "[1, 2, 3]"] command_while_closed [OF n(2)]
    by (simp add: new_client_def)
qed

text \<open>
  C4 as it is stated fails: \<^verbatim>\<open>appendInputAudio\<close> on a disconnected client returns normally,
  and all it leaves behind is a line on the console; no event reaches a subscriber.
\<close>

theorem command_while_closed_counterexample:
  "appendInputAudio [1, 2, 3] (new_client example_config)
     = Inr ((new_client example_config)
              \<lparr>effects := [ConsoleError ''Cannot send: WebSocket not connected'']\<rparr>)
   \<and> emitted (effects ((new_client example_config)
              \<lparr>effects := [ConsoleError ''Cannot send: WebSocket not connected'']\<rparr>)) = []"
proof -
  have "not_open (new_client example_config)" by (simp add: not_open_def new_client_def)
  then show ?thesis
    by (simp add: appendInputAudio_sends send_not_open logError_def new_client_def)
qed

section \<open>Subscribing and unsubscribing\<close>

lemma index_of_None: "index_of x xs = None \<longleftrightarrow> x \<notin> set xs"
  by (induction xs) auto

lemma index_of_remove1:
  "index_of x xs = Some i \<Longrightarrow> take i xs @ drop (Suc i) xs = remove1 x xs"
proof (induction xs arbitrary: i)
  case Nil
  then show ?case by simp
next
  case (Cons y ys)
  show ?case
  proof (cases "x = y")
    case True
    with Cons.prems show ?thesis by simp
  next
    case False
    with Cons.prems obtain j where j: "index_of x ys = Some j" "i = Suc j" by auto
    with Cons.IH [of j] False show ?thesis by simp
  qed
qed

lemma count_list_remove1:
  "x \<in> set xs \<Longrightarrow> count_list (remove1 x xs) x = count_list xs x - 1"
  by (induction xs) auto

lemma listeners_on_simple:
  "listeners (on_simple event handler c) name
     = (if name = event then listeners c event @ [handler] else listeners c name)"
  by (simp add: listeners_def on_simple_def Let_def split: option.splits)

lemma calls_on_simple [simp]: "calls (on_simple event handler c) = calls c"
  by (simp add: on_simple_def Let_def split: option.splits)

lemma calls_fold_on_simple [simp]: "calls (fold (on_simple event) handlers c) = calls c"
  by (induction handlers arbitrary: c) simp_all

lemma listeners_fold_on_simple:
  "listeners (fold (on_simple event) handlers c) event = listeners c event @ handlers"
  by (induction handlers arbitrary: c) (simp_all add: listeners_on_simple)

lemma listeners_off_simple:
  "listeners (off_simple event handler c) name
     = (if name = event then remove1 handler (listeners c event) else listeners c name)"
proof (cases "eventHandlers c event")
  case None
  then show ?thesis by (simp add: listeners_def off_simple_def)
next
  case (Some handlers)
  show ?thesis
  proof (cases "index_of handler handlers")
    case None
    then have "handler \<notin> set handlers" by (simp add: index_of_None)
    then have "remove1 handler handlers = handlers" by (simp add: remove1_idem)
    with None Some show ?thesis by (simp add: listeners_def off_simple_def)
  next
    case (Some i)
    from index_of_remove1 [OF this] Some \<open>eventHandlers c event = Some handlers\<close>
    show ?thesis by (simp add: listeners_def off_simple_def)
  qed
qed

lemma off_simple_unregistered:
  "handler \<notin> set (listeners c event) \<Longrightarrow> off_simple event handler c = c"
  by (auto simp add: listeners_def off_simple_def index_of_None [symmetric] split: option.splits)

lemma calls_off_simple [simp]: "calls (off_simple event handler c) = calls c"
  by (simp add: off_simple_def split: option.splits)

text \<open>
  C10. \<^verbatim>\<open>on\<close> adds the handler at the end of the event's list, and an emission calls the
  handlers of the list in that order, so handlers are called in the order they were
  registered. If a handler stands \<open>n > 0\<close> times in the list, then after one \<^verbatim>\<open>off\<close> an
  emission calls the handlers of the list without the handler's first registration, the
  handler itself exactly \<open>n - 1\<close> times. \<^verbatim>\<open>off\<close> for a handler that is not in the event's
  list (also when the event has no list) leaves the client as it is.
\<close>

theorem unsubscribe_removes_one:
  "listeners (on_simple event handler c) event = listeners c event @ [handler]
   \<and> calls (emit_simple (JStr event) data (fold (on_simple event) handlers new_simple_client))
       = map (\<lambda>h. (h, data)) handlers
   \<and> calls (emit_simple (JStr event) data c)
       = calls c @ map (\<lambda>h. (h, data)) (listeners c event)
   \<and> (count_list (listeners c event) handler = n \<longrightarrow> 0 < n \<longrightarrow>
        calls (emit_simple (JStr event) data (off_simple event handler c))
          = calls c @ map (\<lambda>h. (h, data)) (remove1 handler (listeners c event))
        \<and> count_list (remove1 handler (listeners c event)) handler = n - 1)
   \<and> (handler \<notin> set (listeners c event) \<longrightarrow> off_simple event handler c = c)"
proof -
  have "0 < count_list (listeners c event) handler \<Longrightarrow> handler \<in> set (listeners c event)"
    using count_list_0_iff [of "listeners c event" handler] by auto
  moreover have "listeners new_simple_client event = []" "calls new_simple_client = []"
    by (simp_all add: listeners_def new_simple_client_def)
  ultimately show ?thesis
    by (auto simp add: listeners_on_simple listeners_fold_on_simple emit_simple_calls
        listeners_off_simple off_simple_unregistered count_list_remove1)
qed

theorem unsubscribe_removes_one_witness:
  "calls (emit_simple (JStr ''x'') JNull
      (off_simple ''x'' 7 (fold (on_simple ''x'') [7, 8, 7] new_simple_client)))
     = [(8, JNull), (7, JNull)]
   \<and> off_simple ''x'' 9 (fold (on_simple ''x'') [7, 8, 7] new_simple_client)
     = fold (on_simple ''x'') [7, 8, 7] new_simple_client
   \<and> off_simple ''y'' 7 (fold (on_simple ''x'') [7, 8, 7] new_simple_client)
     = fold (on_simple ''x'') [7, 8, 7] new_simple_client"
proof -
  let ?c = "fold (on_simple ''x'') [7, 8, 7] new_simple_client"
  have l: "listeners ?c ''x'' = [7, 8, 7]" "listeners ?c ''y'' = []" "calls ?c = []"
    by (simp_all add: listeners_def on_simple_def new_simple_client_def Let_def)
  show ?thesis
    using unsubscribe_removes_one [of "''x''" 7 ?c JNull "[]" 2]
      unsubscribe_removes_one [of "''x''" 9 ?c JNull "[]" 0]
      unsubscribe_removes_one [of "''y''" 7 ?c JNull "[]" 0]
    by (simp only: l) simp
qed

end
